theory Spec2Isabelle
  imports Complex_Main
begin

section \<open>Strings and numbers of the host language\<close>

text \<open>
  A string is a list of code units; the code units of the model are the 8-bit characters.
  Four characters that cannot be written inside a string literal get a name.
\<close>

abbreviation dq :: char where "dq \<equiv> CHR 0x22"
abbreviation sq :: char where "sq \<equiv> CHR 0x27"
abbreviation bs :: char where "bs \<equiv> CHR 0x5C"
abbreviation nl :: char where "nl \<equiv> CHR 0x0A"

text \<open>
  Counters, stream indices, array lengths and the number literals of the caption style
  table are natural numbers; a template literal prints them in decimal.
\<close>

definition digitChar :: "nat \<Rightarrow> char" where
  "digitChar d = ''0123456789'' ! (d mod 10)"

function natStr :: "nat \<Rightarrow> string" where
  "natStr n = (if n < 10 then [digitChar n] else natStr (n div 10) @ [digitChar (n mod 10)])"
  by pat_completeness auto
termination
  by (relation "measure id") auto

declare natStr.simps [simp del]

text \<open>
  Scene durations, time stamps, the resolution and the music volume are numbers of a type
  \<open>'n\<close> of which the compositor uses \<open>0\<close> and \<open>+\<close> only. The text a template literal
  prints for such a number is the parameter \<open>ns\<close> of the functions that build strings.
\<close>

text \<open>\<^verbatim>\<open>${x}\<close> for an optional index: \<^verbatim>\<open>undefined\<close> prints as that word.\<close>

definition indexStr :: "nat option \<Rightarrow> string" where
  "indexStr k = (case k of None \<Rightarrow> ''undefined'' | Some n \<Rightarrow> natStr n)"

text \<open>\<^verbatim>\<open>Array.prototype.join\<close>.\<close>

fun join :: "string \<Rightarrow> string list \<Rightarrow> string" where
  "join sep [] = []"
| "join sep [x] = x"
| "join sep (x # y # ys) = x @ sep @ join sep (y # ys)"

text \<open>\<^verbatim>\<open>a || b\<close> on an optional number and on an optional string: \<^verbatim>\<open>undefined\<close>,
  \<^verbatim>\<open>0\<close> and the empty string are falsy.\<close>

definition numOr :: "nat option \<Rightarrow> nat \<Rightarrow> nat" where
  "numOr a b = (case a of None \<Rightarrow> b | Some v \<Rightarrow> if v = 0 then b else v)"

definition strOr :: "string option \<Rightarrow> string \<Rightarrow> string" where
  "strOr a b = (case a of None \<Rightarrow> b | Some v \<Rightarrow> if v = [] then b else v)"

text \<open>\<^verbatim>\<open>s.replace(/c/g, r)\<close> for a single character \<open>c\<close> and a replacement \<open>r\<close> without
  \<^verbatim>\<open>$\<close> patterns.\<close>

definition replaceAll :: "char \<Rightarrow> string \<Rightarrow> string \<Rightarrow> string" where
  "replaceAll c r s = concat (map (\<lambda>x. if x = c then r else [x]) s)"

text \<open>\<^verbatim>\<open>s.replace(/,$/, '')\<close>: without the multiline flag \<^verbatim>\<open>$\<close> is the end of the input.\<close>

definition stripTrailingComma :: "string \<Rightarrow> string" where
  "stripTrailingComma s = (if s \<noteq> [] \<and> last s = CHR '','' then butlast s else s)"

text \<open>
  The class \<^verbatim>\<open>\s\<close> of a regular expression, among the 8-bit code units: tab, line feed,
  vertical tab, form feed, carriage return, space and the no-break space.
\<close>

definition isSpace :: "char \<Rightarrow> bool" where
  "isSpace c = (c \<in> {CHR 0x09, CHR 0x0A, CHR 0x0B, CHR 0x0C, CHR 0x0D, CHR 0x20, CHR 0xA0})"

text \<open>
  \<^verbatim>\<open>text.split(/\s+/)\<close>: the pieces between the maximal runs of white space. A run at the
  start or at the end of the text leaves an empty piece there, and the empty text gives
  one empty piece. The first argument is the piece being read.
\<close>

function splitWs :: "string \<Rightarrow> string \<Rightarrow> string list" where
  "splitWs cur [] = [cur]"
| "splitWs cur (c # cs) =
     (if isSpace c then cur # splitWs [] (dropWhile isSpace cs) else splitWs (cur @ [c]) cs)"
  by pat_completeness auto
termination
  by (relation "measure (\<lambda>(cur, s). length s)") (auto simp: le_imp_less_Suc length_dropWhile_le)

text \<open>\<^verbatim>\<open>script.split('\n\n')\<close>: the pieces between the occurrences of two line feeds, found
  from the left without overlap.\<close>

fun splitBlankLine :: "string \<Rightarrow> string \<Rightarrow> string list" where
  "splitBlankLine cur [] = [cur]"
| "splitBlankLine cur [c] = [cur @ [c]]"
| "splitBlankLine cur (c # d # cs) =
     (if c = nl \<and> d = nl then cur # splitBlankLine [] cs else splitBlankLine (cur @ [c]) (d # cs))"

section \<open>Data model (types.ts and the interfaces of the compositor)\<close>

text \<open>
  The string unions of the source (scene type, animation, background type, caption style,
  transition, effect) are strings at run time and are kept as strings: the compositor
  takes effect and transition tags as \<^verbatim>\<open>string\<close> and has a default branch for the others.
  A field name that several interfaces share carries a suffix naming its interface.
\<close>

record SceneTemplate =
  id_st :: string
  type_st :: string
  duration_st :: "real option"
  textTemplate_st :: "string option"
  backgroundType_st :: string
  animation_st :: string
  captionStyle_st :: string
  musicTrack_st :: "string option"
  effects_st :: "string list option"

text \<open>Of a \<^verbatim>\<open>TemplateConfig\<close> the scene builder reads the scene templates only.\<close>

record TemplateConfig =
  id_tc :: string
  scenes_tc :: "SceneTemplate list"

record 'n VideoScene =
  id_vs :: string
  text_vs :: string
  duration_vs :: 'n
  type_vs :: string
  animation_vs :: string
  backgroundType_vs :: string
  captionStyle_vs :: string
  musicTrack_vs :: "string option"
  effects_vs :: "string list"

record Shadow =
  shadow_x :: nat
  shadow_y :: nat
  shadow_blur :: nat
  shadow_color :: string

record CaptionStyle =
  fontFamily :: string
  fontSize :: nat
  fontWeight :: nat
  color :: string
  backgroundColor :: "string option"
  strokeColor :: "string option"
  strokeWidth :: "nat option"
  shadow :: "Shadow option"
  animation_cs :: string
  position_cs :: string
  maxWidth :: nat
  padding :: nat

record VoiceoverRef =
  sceneId_v :: string
  audioUrl :: string

record BackgroundRef =
  sceneId_b :: string
  videoUrl :: string

record CaptionParams =
  enabled_c :: bool
  style_c :: string
  position_c :: string
  fontSize_c :: nat
  fontFamily_c :: string
  animation_c :: string

record 'n MusicParams =
  enabled_m :: bool
  track :: string
  volume :: 'n

record 'n Resolution =
  width :: 'n
  height :: 'n

record 'n VideoCompositionParams =
  jobId :: string
  scenes_p :: "'n VideoScene list"
  voiceovers :: "VoiceoverRef list"
  backgrounds :: "BackgroundRef list"
  captions_p :: CaptionParams
  music :: "'n MusicParams"
  transitions :: "string list"
  effects_p :: "string list"
  outputFormat_p :: string
  resolution_p :: "'n Resolution"

record SceneCaptions =
  text_c :: string
  style :: CaptionStyle
  position :: string
  animation :: string

record 'n SceneConfig =
  startTime :: 'n
  endTime :: 'n
  duration :: 'n
  backgroundVideoUrl :: string
  backgroundInputIndex :: "nat option"
  voiceoverAudioUrl :: string
  voiceoverInputIndex :: "nat option"
  captions :: "SceneCaptions option"
  effects :: "string list"
  transition :: string

record 'n CompositionConfig =
  resolution :: "'n Resolution"
  outputFormat :: string
  scenes :: "'n SceneConfig list"
  globalEffects :: "string list"
  musicTrack :: "string option"
  musicVolume :: 'n
  musicInputIndex :: "nat option"

section \<open>The caption style table (caption-styles.ts)\<close>

definition style_modern :: CaptionStyle where
  "style_modern =
    \<lparr>fontFamily = ''Montserrat'', fontSize = 52, fontWeight = 800,
     color = ''#FFFFFF'', backgroundColor = Some ''rgba(0, 0, 0, 0.7)'',
     strokeColor = Some ''#000000'', strokeWidth = Some 3,
     shadow = Some \<lparr>shadow_x = 3, shadow_y = 3, shadow_blur = 8, shadow_color = ''rgba(0, 0, 0, 0.8)''\<rparr>,
     animation_cs = ''word-by-word'', position_cs = ''bottom'',
     maxWidth = 900, padding = 20\<rparr>"

definition style_bold :: CaptionStyle where
  "style_bold =
    \<lparr>fontFamily = ''Impact'', fontSize = 64, fontWeight = 900,
     color = ''#FFFF00'', backgroundColor = None,
     strokeColor = Some ''#000000'', strokeWidth = Some 6,
     shadow = Some \<lparr>shadow_x = 4, shadow_y = 4, shadow_blur = 10, shadow_color = ''rgba(0, 0, 0, 1)''\<rparr>,
     animation_cs = ''word-by-word'', position_cs = ''bottom'',
     maxWidth = 950, padding = 15\<rparr>"

definition style_minimal :: CaptionStyle where
  "style_minimal =
    \<lparr>fontFamily = ''Helvetica'', fontSize = 44, fontWeight = 600,
     color = ''#FFFFFF'', backgroundColor = None,
     strokeColor = None, strokeWidth = Some 0,
     shadow = Some \<lparr>shadow_x = 2, shadow_y = 2, shadow_blur = 6, shadow_color = ''rgba(0, 0, 0, 0.5)''\<rparr>,
     animation_cs = ''word-by-word'', position_cs = ''center'',
     maxWidth = 800, padding = 25\<rparr>"

definition style_neon :: CaptionStyle where
  "style_neon =
    \<lparr>fontFamily = ''Arial Black'', fontSize = 56, fontWeight = 900,
     color = ''#00FFFF'', backgroundColor = None,
     strokeColor = Some ''#FF00FF'', strokeWidth = Some 4,
     shadow = Some \<lparr>shadow_x = 0, shadow_y = 0, shadow_blur = 20, shadow_color = ''rgba(0, 255, 255, 0.8)''\<rparr>,
     animation_cs = ''word-by-word'', position_cs = ''bottom'',
     maxWidth = 900, padding = 20\<rparr>"

definition style_retro :: CaptionStyle where
  "style_retro =
    \<lparr>fontFamily = ''Courier New'', fontSize = 48, fontWeight = 700,
     color = ''#FFD700'', backgroundColor = Some ''rgba(139, 69, 19, 0.8)'',
     strokeColor = Some ''#8B4513'', strokeWidth = Some 3,
     shadow = Some \<lparr>shadow_x = 5, shadow_y = 5, shadow_blur = 0, shadow_color = ''rgba(0, 0, 0, 1)''\<rparr>,
     animation_cs = ''letter-by-letter'', position_cs = ''center'',
     maxWidth = 850, padding = 30\<rparr>"

definition style_handwritten :: CaptionStyle where
  "style_handwritten =
    \<lparr>fontFamily = ''Comic Sans MS'', fontSize = 50, fontWeight = 700,
     color = ''#333333'', backgroundColor = Some ''rgba(255, 255, 255, 0.9)'',
     strokeColor = None, strokeWidth = Some 0,
     shadow = Some \<lparr>shadow_x = 2, shadow_y = 2, shadow_blur = 4, shadow_color = ''rgba(0, 0, 0, 0.3)''\<rparr>,
     animation_cs = ''word-by-word'', position_cs = ''bottom'',
     maxWidth = 880, padding = 25\<rparr>"

definition style_comic :: CaptionStyle where
  "style_comic =
    \<lparr>fontFamily = ''Bangers'', fontSize = 60, fontWeight = 800,
     color = ''#FF0000'', backgroundColor = None,
     strokeColor = Some ''#000000'', strokeWidth = Some 5,
     shadow = Some \<lparr>shadow_x = 3, shadow_y = 3, shadow_blur = 0, shadow_color = ''rgba(255, 255, 0, 1)''\<rparr>,
     animation_cs = ''word-by-word'', position_cs = ''top'',
     maxWidth = 920, padding = 15\<rparr>"

definition style_elegant :: CaptionStyle where
  "style_elegant =
    \<lparr>fontFamily = ''Playfair Display'', fontSize = 46, fontWeight = 600,
     color = ''#F5F5DC'', backgroundColor = Some ''rgba(0, 0, 0, 0.6)'',
     strokeColor = None, strokeWidth = Some 0,
     shadow = Some \<lparr>shadow_x = 2, shadow_y = 2, shadow_blur = 8, shadow_color = ''rgba(0, 0, 0, 0.7)''\<rparr>,
     animation_cs = ''line-by-line'', position_cs = ''bottom'',
     maxWidth = 850, padding = 30\<rparr>"

definition style_grunge :: CaptionStyle where
  "style_grunge =
    \<lparr>fontFamily = ''Impact'', fontSize = 58, fontWeight = 900,
     color = ''#CCCCCC'', backgroundColor = None,
     strokeColor = Some ''#000000'', strokeWidth = Some 4,
     shadow = Some \<lparr>shadow_x = 6, shadow_y = 6, shadow_blur = 2, shadow_color = ''rgba(0, 0, 0, 0.9)''\<rparr>,
     animation_cs = ''word-by-word'', position_cs = ''bottom'',
     maxWidth = 900, padding = 18\<rparr>"

definition style_kawaii :: CaptionStyle where
  "style_kawaii =
    \<lparr>fontFamily = ''Rounded Mplus 1c'', fontSize = 54, fontWeight = 800,
     color = ''#FF69B4'', backgroundColor = None,
     strokeColor = Some ''#FFFFFF'', strokeWidth = Some 5,
     shadow = Some \<lparr>shadow_x = 3, shadow_y = 3, shadow_blur = 10, shadow_color = ''rgba(255, 192, 203, 0.8)''\<rparr>,
     animation_cs = ''word-by-word'', position_cs = ''bottom'',
     maxWidth = 880, padding = 22\<rparr>"

definition style_alex_hormozi :: CaptionStyle where
  "style_alex_hormozi =
    \<lparr>fontFamily = ''Arial Black'', fontSize = 72, fontWeight = 900,
     color = ''#FFFFFF'', backgroundColor = Some ''rgba(0, 0, 0, 0.85)'',
     strokeColor = Some ''#FFD700'', strokeWidth = Some 4,
     shadow = Some \<lparr>shadow_x = 4, shadow_y = 4, shadow_blur = 12, shadow_color = ''rgba(0, 0, 0, 1)''\<rparr>,
     animation_cs = ''word-by-word'', position_cs = ''center'',
     maxWidth = 950, padding = 25\<rparr>"

definition style_mr_beast :: CaptionStyle where
  "style_mr_beast =
    \<lparr>fontFamily = ''Impact'', fontSize = 68, fontWeight = 900,
     color = ''#FFFF00'', backgroundColor = None,
     strokeColor = Some ''#000000'', strokeWidth = Some 8,
     shadow = Some \<lparr>shadow_x = 5, shadow_y = 5, shadow_blur = 15, shadow_color = ''rgba(255, 0, 0, 0.6)''\<rparr>,
     animation_cs = ''word-by-word'', position_cs = ''bottom'',
     maxWidth = 940, padding = 20\<rparr>"

definition style_vsauce :: CaptionStyle where
  "style_vsauce =
    \<lparr>fontFamily = ''Roboto'', fontSize = 50, fontWeight = 700,
     color = ''#FFFFFF'', backgroundColor = Some ''rgba(0, 0, 0, 0.75)'',
     strokeColor = None, strokeWidth = Some 0,
     shadow = Some \<lparr>shadow_x = 3, shadow_y = 3, shadow_blur = 8, shadow_color = ''rgba(0, 0, 0, 0.8)''\<rparr>,
     animation_cs = ''line-by-line'', position_cs = ''bottom'',
     maxWidth = 870, padding = 28\<rparr>"

definition styles :: "(string \<times> CaptionStyle) list" where
  "styles =
    [(''modern'', style_modern),
     (''bold'', style_bold),
     (''minimal'', style_minimal),
     (''neon'', style_neon),
     (''retro'', style_retro),
     (''handwritten'', style_handwritten),
     (''comic'', style_comic),
     (''elegant'', style_elegant),
     (''grunge'', style_grunge),
     (''kawaii'', style_kawaii),
     (''alex-hormozi'', style_alex_hormozi),
     (''mr-beast'', style_mr_beast),
     (''vsauce'', style_vsauce)]"

text \<open>\<^verbatim>\<open>styles[styleName] || styles.modern\<close>, for the keys of the table itself.\<close>

definition getCaptionStyle :: "string \<Rightarrow> CaptionStyle" where
  "getCaptionStyle styleName =
     (case map_of styles styleName of Some s \<Rightarrow> s | None \<Rightarrow> style_modern)"

section \<open>The scene builder (template-engine.ts, class TemplateEngine)\<close>

text \<open>
  \<^verbatim>\<open>calculateDuration\<close>: the number of pieces of \<^verbatim>\<open>text.split(/\s+/)\<close>, divided by the
  rate of 2.5 words a second, plus half a second, and at least three seconds.
\<close>

definition calculateDuration :: "string \<Rightarrow> real" where
  "calculateDuration text =
     (let words = length (splitWs [] text);
          baseDuration = (real words / 2.5) + 0.5
      in max baseDuration 3)"

text \<open>
  The loop of \<^verbatim>\<open>generateScenes\<close> from index \<open>i\<close> on. \<^verbatim>\<open>scriptParts[i] || ''\<close> is the empty
  text past the end of the script parts; \<^verbatim>\<open>sceneTemplate.duration || ...\<close> takes the
  computed duration when the template has none or has \<open>0\<close>; an empty array is truthy.
\<close>

fun generateScenesFrom :: "nat \<Rightarrow> SceneTemplate list \<Rightarrow> string list \<Rightarrow> real VideoScene list" where
  "generateScenesFrom i [] scriptParts = []"
| "generateScenesFrom i (sceneTemplate # rest) scriptParts =
     (let text = (if i < length scriptParts then scriptParts ! i else [])
      in \<lparr>id_vs = ''scene_'' @ natStr i,
          text_vs = text,
          duration_vs = (case duration_st sceneTemplate of
                           None \<Rightarrow> calculateDuration text
                         | Some d \<Rightarrow> if d = 0 then calculateDuration text else d),
          type_vs = type_st sceneTemplate,
          animation_vs = animation_st sceneTemplate,
          backgroundType_vs = backgroundType_st sceneTemplate,
          captionStyle_vs = captionStyle_st sceneTemplate,
          musicTrack_vs = musicTrack_st sceneTemplate,
          effects_vs = (case effects_st sceneTemplate of None \<Rightarrow> [] | Some es \<Rightarrow> es)\<rparr>
         # generateScenesFrom (i + 1) rest scriptParts)"

text \<open>\<^verbatim>\<open>generateScenes(template, script, options)\<close>; the body never reads \<^verbatim>\<open>options\<close>.\<close>

definition generateScenes :: "TemplateConfig \<Rightarrow> string \<Rightarrow> real VideoScene list" where
  "generateScenes template script =
     generateScenesFrom 0 (scenes_tc template) (splitBlankLine [] script)"

text \<open>The total duration as \<^verbatim>\<open>processTemplate\<close> computes it:
  \<^verbatim>\<open>scenes.reduce((sum, s) => sum + s.duration, 0)\<close>.\<close>

definition totalDuration :: "('n::{zero,plus}) VideoScene list \<Rightarrow> 'n" where
  "totalDuration ss = foldl (\<lambda>sum s. sum + duration_vs s) 0 ss"

section \<open>The compositor (compositor.ts)\<close>

subsection \<open>buildCompositionConfig\<close>

text \<open>
  The \<^verbatim>\<open>forEach\<close> of \<^verbatim>\<open>buildCompositionConfig\<close>, from scene \<open>index\<close> on, with the running
  \<open>currentTimestamp\<close>. A scene without an entry in the voiceover or background array gets
  the empty URL; a scene past the end of the transition array gets \<^verbatim>\<open>cut\<close>.
\<close>

fun buildScenes ::
  "('n::plus) VideoCompositionParams \<Rightarrow> nat \<Rightarrow> 'n \<Rightarrow> 'n VideoScene list \<Rightarrow> 'n SceneConfig list" where
  "buildScenes params index currentTimestamp [] = []"
| "buildScenes params index currentTimestamp (scene # rest) =
     (let voiceover = find (\<lambda>v. sceneId_v v = id_vs scene) (voiceovers params);
          background = find (\<lambda>b. sceneId_b b = id_vs scene) (backgrounds params);
          sceneConfig =
            \<lparr>startTime = currentTimestamp,
             endTime = currentTimestamp + duration_vs scene,
             duration = duration_vs scene,
             backgroundVideoUrl = (case background of None \<Rightarrow> [] | Some b \<Rightarrow> videoUrl b),
             backgroundInputIndex = None,
             voiceoverAudioUrl = (case voiceover of None \<Rightarrow> [] | Some v \<Rightarrow> audioUrl v),
             voiceoverInputIndex = None,
             captions =
               (if enabled_c (captions_p params)
                then Some \<lparr>text_c = text_vs scene,
                           style = getCaptionStyle (style_c (captions_p params)),
                           position = position_c (captions_p params),
                           animation = animation_c (captions_p params)\<rparr>
                else None),
             effects = effects_vs scene,
             transition =
               (if index < length (transitions params) then transitions params ! index
                else ''cut'')\<rparr>
      in sceneConfig # buildScenes params (index + 1) (currentTimestamp + duration_vs scene) rest)"

definition buildCompositionConfig ::
  "('n::{zero,plus}) VideoCompositionParams \<Rightarrow> 'n CompositionConfig" where
  "buildCompositionConfig params =
     \<lparr>resolution = resolution_p params,
      outputFormat = outputFormat_p params,
      scenes = buildScenes params 0 0 (scenes_p params),
      globalEffects = effects_p params,
      musicTrack = (if enabled_m (music params) then Some (track (music params)) else None),
      musicVolume = volume (music params),
      musicInputIndex = None\<rparr>"

subsection \<open>The stage builders\<close>

text \<open>The four replacements of \<^verbatim>\<open>buildCaptionFilter\<close>, in the order of the source.\<close>

definition escapeText :: "string \<Rightarrow> string" where
  "escapeText text =
     replaceAll CHR '']'' [bs, CHR '']'']
       (replaceAll CHR ''['' [bs, CHR ''['']
          (replaceAll CHR '':'' [bs, CHR '':'']
             (replaceAll sq [bs, sq] text)))"

text \<open>\<^verbatim>\<open>positions[captions.position] || positions.center\<close>, for the keys of the table itself.\<close>

definition positionExpr :: "string \<Rightarrow> string" where
  "positionExpr p =
     (if p = ''top'' then ''(w-text_w)/2:h*0.1''
      else if p = ''center'' then ''(w-text_w)/2:(h-text_h)/2''
      else if p = ''bottom'' then ''(w-text_w)/2:h*0.85''
      else ''(w-text_w)/2:(h-text_h)/2'')"

definition buildCaptionFilter :: "SceneCaptions \<Rightarrow> nat \<Rightarrow> string" where
  "buildCaptionFilter caps sceneIndex =
     (let st = style caps;
          escapedText = escapeText (text_c caps);
          pos = positionExpr (position caps)
      in ''[v'' @ natStr sceneIndex @ ''_effects]drawtext=''
         @ ''text='' @ [sq] @ escapedText @ [sq] @ '':''
         @ ''fontfile=/usr/share/fonts/'' @ fontFamily st @ ''.ttf:''
         @ ''fontsize='' @ natStr (fontSize st) @ '':''
         @ ''fontcolor='' @ color st @ '':''
         @ ''x='' @ pos @ '':''
         @ ''borderw='' @ natStr (numOr (strokeWidth st) 0) @ '':''
         @ ''bordercolor='' @ strOr (strokeColor st) ''0x000000'' @ '':''
         @ (case shadow st of
              None \<Rightarrow> []
            | Some sh \<Rightarrow>
                ''shadowx='' @ natStr (shadow_x sh) @ '':''
                @ ''shadowy='' @ natStr (shadow_y sh) @ '':''
                @ ''shadowcolor='' @ shadow_color sh @ '':'')
         @ (if animation caps = ''word-by-word''
            then ''enable='' @ [sq] @ ''between(t,0,3)'' @ [sq] @ '':'' else [])
         @ ''[v'' @ natStr sceneIndex @ ''_caption]'')"

text \<open>The \<^verbatim>\<open>switch\<close> of \<^verbatim>\<open>buildEffectsFilter\<close>: what one effect tag appends.\<close>

definition effectStage :: "string \<Rightarrow> string" where
  "effectStage effect =
     (if effect = ''vignette'' then ''vignette=angle=PI/4:mode=forward,''
      else if effect = ''chromatic-aberration'' then ''chromashift=crh=3:cbh=-3,''
      else if effect = ''film-grain'' then ''noise=c0s=20:allf=t,''
      else if effect = ''blur'' then ''boxblur=2:1,''
      else if effect = ''sharpen'' then ''unsharp=5:5:1.0:5:5:0.0,''
      else if effect = ''glow'' then ''gblur=sigma=10,''
      else if effect = ''scanlines'' then ''interlace,''
      else [])"

definition buildEffectsFilter :: "string list \<Rightarrow> nat \<Rightarrow> string" where
  "buildEffectsFilter effs sceneIndex =
     stripTrailingComma
       (foldl (\<lambda>filter effect. filter @ effectStage effect)
          (''[v'' @ natStr sceneIndex @ ''_trimmed]'') effs)
     @ ''[v'' @ natStr sceneIndex @ ''_effects]''"

definition globalEffectStage :: "string \<Rightarrow> string" where
  "globalEffectStage effect =
     (if effect = ''color-grading'' then ''eq=contrast=1.1:brightness=0.05:saturation=1.2,''
      else if effect = ''film-grain'' then ''noise=c0s=15:allf=t,''
      else if effect = ''vignette'' then ''vignette=angle=PI/3,''
      else [])"

definition buildGlobalEffectsFilter :: "string list \<Rightarrow> string" where
  "buildGlobalEffectsFilter effs =
     stripTrailingComma (foldl (\<lambda>filter effect. filter @ globalEffectStage effect) ''[vout]'' effs)
     @ ''[vfinal]''"

text \<open>
  \<^verbatim>\<open>buildTransitionFilter\<close>; \<^verbatim>\<open>transitionMap[transition] || transitionMap.fade\<close> for the keys
  of the table itself. No function of the source calls it.
\<close>

definition transitionName :: "string \<Rightarrow> string" where
  "transitionName t =
     (if t = ''fade'' then ''fade''
      else if t = ''wipe'' then ''wipeleft''
      else if t = ''slide'' then ''slideleft''
      else if t = ''zoom'' then ''zoomin''
      else if t = ''spin'' then ''circleopen''
      else if t = ''blur'' then ''fadeblack''
      else if t = ''glitch'' then ''pixelize''
      else ''fade'')"

definition buildTransitionFilter :: "('n \<Rightarrow> string) \<Rightarrow> string \<Rightarrow> nat \<Rightarrow> nat \<Rightarrow> 'n \<Rightarrow> string" where
  "buildTransitionFilter ns t scene1 scene2 dur =
     ''[v'' @ natStr scene1 @ ''][v'' @ natStr scene2 @ '']''
     @ ''xfade=transition='' @ transitionName t @ '':duration='' @ ns dur @ '':offset='' @ ns dur
     @ ''[v'' @ natStr scene2 @ ''_trans]''"

subsection \<open>generateFFmpegCommand\<close>

text \<open>
  The function writes the input indices into the configuration object it is given, so the
  model returns the configuration as the call leaves it, next to the command.

  First \<^verbatim>\<open>forEach\<close>: every scene pushes its background as an input and takes the next
  index. The result is the inputs pushed, the scenes as updated, and the counter.
\<close>

fun addBackgroundInputs ::
  "'n SceneConfig list \<Rightarrow> nat \<Rightarrow> string list \<times> 'n SceneConfig list \<times> nat" where
  "addBackgroundInputs [] inputIndex = ([], [], inputIndex)"
| "addBackgroundInputs (scene # rest) inputIndex =
     (case addBackgroundInputs rest (inputIndex + 1) of
        (inputs, rest', k) \<Rightarrow>
          ((''-i '' @ [dq] @ backgroundVideoUrl scene @ [dq]) # inputs,
           scene\<lparr>backgroundInputIndex := Some inputIndex\<rparr> # rest', k))"

text \<open>Second \<^verbatim>\<open>forEach\<close>: a scene with a non-empty voiceover URL pushes it and takes the
  next index; any other scene keeps the voiceover index it came with.\<close>

fun addVoiceoverInputs ::
  "'n SceneConfig list \<Rightarrow> nat \<Rightarrow> string list \<times> 'n SceneConfig list \<times> nat" where
  "addVoiceoverInputs [] inputIndex = ([], [], inputIndex)"
| "addVoiceoverInputs (scene # rest) inputIndex =
     (if voiceoverAudioUrl scene \<noteq> []
      then (case addVoiceoverInputs rest (inputIndex + 1) of
              (inputs, rest', k) \<Rightarrow>
                ((''-i '' @ [dq] @ voiceoverAudioUrl scene @ [dq]) # inputs,
                 scene\<lparr>voiceoverInputIndex := Some inputIndex\<rparr> # rest', k))
      else (case addVoiceoverInputs rest inputIndex of
              (inputs, rest', k) \<Rightarrow> (inputs, scene # rest', k)))"

text \<open>\<^verbatim>\<open>if (config.musicTrack)\<close>: a present, non-empty track name.\<close>

definition hasMusicTrack :: "'n CompositionConfig \<Rightarrow> bool" where
  "hasMusicTrack config = (case musicTrack config of None \<Rightarrow> False | Some t \<Rightarrow> t \<noteq> [])"

text \<open>
  The three stage strings that the scene loop builds itself, for scene \<open>i\<close>: scale and
  crop of the background input, trim to the scene duration, and trim of the voiceover
  input \<open>k\<close>.
\<close>

definition scaleCropStage ::
  "('n \<Rightarrow> string) \<Rightarrow> 'n CompositionConfig \<Rightarrow> nat \<Rightarrow> 'n SceneConfig \<Rightarrow> string" where
  "scaleCropStage ns config i scene =
     ''['' @ indexStr (backgroundInputIndex scene) @ '':v]''
     @ ''scale='' @ ns (width (resolution config)) @ '':'' @ ns (height (resolution config))
     @ '':force_original_aspect_ratio=increase,crop=''
     @ ns (width (resolution config)) @ '':'' @ ns (height (resolution config))
     @ ''[bg'' @ natStr i @ '']''"

definition trimStage :: "('n \<Rightarrow> string) \<Rightarrow> nat \<Rightarrow> 'n SceneConfig \<Rightarrow> string" where
  "trimStage ns i scene =
     ''[bg'' @ natStr i @ '']trim=duration='' @ ns (duration scene)
     @ '',setpts=PTS-STARTPTS[bg'' @ natStr i @ ''_trimmed]''"

definition audioTrimStage :: "('n \<Rightarrow> string) \<Rightarrow> nat \<Rightarrow> nat \<Rightarrow> 'n SceneConfig \<Rightarrow> string" where
  "audioTrimStage ns i k scene =
     ''['' @ natStr k @ '':a]atrim=duration='' @ ns (duration scene)
     @ '',asetpts=PTS-STARTPTS[audio'' @ natStr i @ '']''"

text \<open>
  Third \<^verbatim>\<open>forEach\<close>: the stages of scene \<open>i\<close> and of the scenes after it, and the audio
  stream labels they push. A scene gives a scale-and-crop stage, a trim stage, a caption
  stage when it has captions, an effects stage when its effect list is not empty, and an
  audio trim stage when it has a voiceover input index.
\<close>

fun sceneFilters ::
  "('n \<Rightarrow> string) \<Rightarrow> 'n CompositionConfig \<Rightarrow> nat \<Rightarrow> 'n SceneConfig list
     \<Rightarrow> string list \<times> string list" where
  "sceneFilters ns config i [] = ([], [])"
| "sceneFilters ns config i (scene # rest) =
     (let caption = (case captions scene of
                       None \<Rightarrow> []
                     | Some c \<Rightarrow> [buildCaptionFilter c i]);
          effs = (if effects scene \<noteq> [] then [buildEffectsFilter (effects scene) i] else []);
          voice = (case voiceoverInputIndex scene of
                     None \<Rightarrow> []
                   | Some k \<Rightarrow> [audioTrimStage ns i k scene]);
          audio = (case voiceoverInputIndex scene of
                     None \<Rightarrow> []
                   | Some k \<Rightarrow> [''[audio'' @ natStr i @ '']''])
      in case sceneFilters ns config (i + 1) rest of
           (filters, audioStreams) \<Rightarrow>
             ([scaleCropStage ns config i scene, trimStage ns i scene]
              @ caption @ effs @ voice @ filters,
              audio @ audioStreams))"

text \<open>The stages after the scene loop: video concatenation, audio concatenation when
  some audio stream was pushed, the music mix or the audio copy, and the global effects.\<close>

definition videoConcatStage :: "'n SceneConfig list \<Rightarrow> string" where
  "videoConcatStage ss =
     join [] (map (\<lambda>i. ''[v'' @ natStr i @ ''_final]'') [0..<length ss])
     @ ''concat=n='' @ natStr (length ss) @ '':v=1:a=0[vout]''"

definition audioConcatStages :: "string list \<Rightarrow> string list" where
  "audioConcatStages audioStreams =
     (if length audioStreams > 0
      then [join [] audioStreams @ ''concat=n='' @ natStr (length audioStreams) @ '':v=0:a=1[aout]'']
      else [])"

definition audioMixStage :: "('n \<Rightarrow> string) \<Rightarrow> 'n CompositionConfig \<Rightarrow> string" where
  "audioMixStage ns config =
     (if hasMusicTrack config \<and> musicInputIndex config \<noteq> None
      then ''[aout]['' @ indexStr (musicInputIndex config)
           @ '':a]amix=inputs=2:duration=first:weights=1 '' @ ns (musicVolume config) @ ''[afinal]''
      else ''[aout]acopy[afinal]'')"

definition globalEffectsStages :: "'n CompositionConfig \<Rightarrow> string list" where
  "globalEffectsStages config =
     (if length (globalEffects config) > 0 then [buildGlobalEffectsFilter (globalEffects config)]
      else [])"

text \<open>
  The three parts of the command before they are joined: the configuration as the call
  leaves it, the \<^verbatim>\<open>inputs\<close> array and the \<^verbatim>\<open>filterComplex\<close> array.
\<close>

definition assignInputs :: "'n CompositionConfig \<Rightarrow> string list \<times> 'n CompositionConfig" where
  "assignInputs config =
     (case addBackgroundInputs (scenes config) 0 of
        (bgInputs, scenes1, k1) \<Rightarrow>
          (case addVoiceoverInputs scenes1 k1 of
             (voInputs, scenes2, k2) \<Rightarrow>
               (case musicTrack config of
                  None \<Rightarrow> (bgInputs @ voInputs, config\<lparr>scenes := scenes2\<rparr>)
                | Some t \<Rightarrow>
                    if t \<noteq> []
                    then (bgInputs @ voInputs @ [''-i '' @ [dq] @ t @ [dq]],
                          config\<lparr>scenes := scenes2, musicInputIndex := Some k2\<rparr>)
                    else (bgInputs @ voInputs, config\<lparr>scenes := scenes2\<rparr>))))"

definition filterComplex :: "('n \<Rightarrow> string) \<Rightarrow> 'n CompositionConfig \<Rightarrow> string list" where
  "filterComplex ns config =
     (case sceneFilters ns config 0 (scenes config) of
        (filters, audioStreams) \<Rightarrow>
          filters @ [videoConcatStage (scenes config)] @ audioConcatStages audioStreams
          @ [audioMixStage ns config] @ globalEffectsStages config)"

definition generateFFmpegCommand ::
  "('n \<Rightarrow> string) \<Rightarrow> 'n CompositionConfig \<Rightarrow> string \<times> 'n CompositionConfig" where
  "generateFFmpegCommand ns config0 =
     (case assignInputs config0 of
        (inputs, config) \<Rightarrow>
          (join '' ''
             ([''ffmpeg''] @ inputs
              @ [''-filter_complex'', [dq] @ join '';'' (filterComplex ns config) @ [dq],
                 ''-map'', ''[vout]'', ''-map'', ''[afinal]'',
                 ''-c:v'', ''libx264'', ''-preset'', ''medium'', ''-crf'', ''23'',
                 ''-c:a'', ''aac'', ''-b:a'', ''192k'',
                 ''-movflags'', ''+faststart'', ''-pix_fmt'', ''yuv420p'',
                 ''output.'' @ outputFormat config]),
           config))"

section \<open>Notions used to state the properties\<close>

text \<open>
  The number of words of a text in the usual sense: the number of maximal runs of
  characters that are not white space. The flag says whether a word is being read.
\<close>

fun countWords :: "bool \<Rightarrow> string \<Rightarrow> nat" where
  "countWords inWord [] = 0"
| "countWords inWord (c # cs) =
     (if isSpace c then countWords False cs
      else (if inWord then 0 else 1) + countWords True cs)"

definition specWordCount :: "string \<Rightarrow> nat" where
  "specWordCount text = countWords False text"

text \<open>The duration the specification gives a scene that has a text only.\<close>

definition specDuration :: "string \<Rightarrow> real" where
  "specDuration text = max 3.0 (real (specWordCount text) / 2.5 + 0.5)"

text \<open>The characters that \<^verbatim>\<open>buildCaptionFilter\<close> escapes.\<close>

definition isSpecial :: "char \<Rightarrow> bool" where
  "isSpecial c = (c = sq \<or> c = CHR '':'' \<or> c = CHR ''['' \<or> c = CHR '']'')"

text \<open>The reading that undoes the escaping: a backslash right before one of the four
  characters is dropped, every other character stands for itself.\<close>

fun unescapeText :: "string \<Rightarrow> string" where
  "unescapeText [] = []"
| "unescapeText [c] = [c]"
| "unescapeText (c # d # cs) =
     (if c = bs \<and> isSpecial d then d # unescapeText cs else c # unescapeText (d # cs))"

text \<open>
  Reading a quoted value from right after its opening quote, with the reading that undoes
  the escaping: a backslash right before one of the four characters gives that character,
  every other character stands for itself, and the first quote that is not escaped closes
  the value. The result is the value and what follows the closing quote; a value that is
  never closed has none.
\<close>

fun readQuoted :: "string \<Rightarrow> (string \<times> string) option" where
  "readQuoted [] = None"
| "readQuoted [c] = (if c = sq then Some ([], []) else None)"
| "readQuoted (c # d # cs) =
     (if c = sq then Some ([], d # cs)
      else if c = bs \<and> isSpecial d
        then (case readQuoted cs of None \<Rightarrow> None | Some (v, r) \<Rightarrow> Some (d # v, r))
        else (case readQuoted (d # cs) of None \<Rightarrow> None | Some (v, r) \<Rightarrow> Some (c # v, r)))"

text \<open>
  The stream labels of a stage: the bracketed names it starts with are the streams it
  consumes, the bracketed name it ends with is the stream it produces. The first argument
  of \<open>leadingLabels\<close> is the label being read, if any.
\<close>

fun leadingLabels :: "string option \<Rightarrow> string \<Rightarrow> string list" where
  "leadingLabels None [] = []"
| "leadingLabels None (c # cs) = (if c = CHR ''['' then leadingLabels (Some []) cs else [])"
| "leadingLabels (Some l) [] = []"
| "leadingLabels (Some l) (c # cs) =
     (if c = CHR '']'' then l # leadingLabels None cs else leadingLabels (Some (l @ [c])) cs)"

definition stageInputs :: "string \<Rightarrow> string list" where
  "stageInputs stage = leadingLabels None stage"

definition stageOutput :: "string \<Rightarrow> string list" where
  "stageOutput stage =
     (if stage \<noteq> [] \<and> last stage = CHR '']''
      then [rev (takeWhile (\<lambda>c. c \<noteq> CHR ''['') (tl (rev stage)))] else [])"

text \<open>The streams that \<open>n\<close> input files define: the video and the audio of each.\<close>

definition inputStreams :: "nat \<Rightarrow> string list" where
  "inputStreams n = concat (map (\<lambda>k. [natStr k @ '':v'', natStr k @ '':a'']) [0..<n])"

text \<open>A list of stages is linked when every stage consumes only streams that the inputs
  or an earlier stage define.\<close>

fun linked :: "string list \<Rightarrow> string list \<Rightarrow> bool" where
  "linked defined [] = True"
| "linked defined (stage # rest) =
     (list_all (\<lambda>l. l \<in> set defined) (stageInputs stage)
      \<and> linked (defined @ stageOutput stage) rest)"

definition wellLinked :: "string list \<Rightarrow> string list \<Rightarrow> bool" where
  "wellLinked inputs stages = linked (inputStreams (length inputs)) stages"

text \<open>The audio streams that the scene loop pushes: one for each scene, in scene order,
  that has a voiceover input index.\<close>

definition audioLabels :: "'n SceneConfig list \<Rightarrow> string list" where
  "audioLabels ss =
     map (\<lambda>i. ''[audio'' @ natStr i @ '']'')
       (filter (\<lambda>i. voiceoverInputIndex (ss ! i) \<noteq> None) [0..<length ss])"

text \<open>The input argument of a media reference.\<close>

definition inputArg :: "string \<Rightarrow> string" where
  "inputArg url = ''-i '' @ [dq] @ url @ [dq]"

text \<open>A scene whose voiceover URL is not empty.\<close>

definition hasVoiceover :: "'n SceneConfig \<Rightarrow> bool" where
  "hasVoiceover scene = (voiceoverAudioUrl scene \<noteq> [])"

text \<open>The input list of the music track, if a track name is present and not empty.\<close>

definition musicInputs :: "'n CompositionConfig \<Rightarrow> string list" where
  "musicInputs config = (if hasMusicTrack config then
     [inputArg (case musicTrack config of None \<Rightarrow> [] | Some t \<Rightarrow> t)] else [])"

text \<open>The scenes as the two input passes leave them, the background counter starting at
  \<open>k\<close> and the voiceover counter at \<open>j\<close>.\<close>

definition indexed :: "nat \<Rightarrow> nat \<Rightarrow> 'n SceneConfig list \<Rightarrow> 'n SceneConfig list" where
  "indexed k j ss = fst (snd (addVoiceoverInputs (fst (snd (addBackgroundInputs ss k))) j))"

section \<open>Example inputs\<close>

definition exScene :: "string \<Rightarrow> string \<Rightarrow> 'n \<Rightarrow> 'n VideoScene" where
  "exScene i t d =
     \<lparr>id_vs = i, text_vs = t, duration_vs = d, type_vs = ''main'', animation_vs = ''none'',
      backgroundType_vs = ''gradient'', captionStyle_vs = ''modern'', musicTrack_vs = None,
      effects_vs = []\<rparr>"

text \<open>Parameters without captions, music and global effects, for a 1080 by 1920 mp4.\<close>

definition exParams ::
  "nat VideoScene list \<Rightarrow> VoiceoverRef list \<Rightarrow> BackgroundRef list \<Rightarrow> string list
     \<Rightarrow> nat VideoCompositionParams" where
  "exParams ss vs bgs ts =
     \<lparr>jobId = ''job_1'', scenes_p = ss, voiceovers = vs, backgrounds = bgs,
      captions_p = \<lparr>enabled_c = False, style_c = ''modern'', position_c = ''bottom'',
                    fontSize_c = 48, fontFamily_c = ''Montserrat'',
                    animation_c = ''word-by-word''\<rparr>,
      music = \<lparr>enabled_m = False, track = ''upbeat_1'', volume = 0\<rparr>,
      transitions = ts, effects_p = [], outputFormat_p = ''mp4'',
      resolution_p = \<lparr>width = 1080, height = 1920\<rparr>\<rparr>"

text \<open>Three scenes of 5, 8 and 4 seconds, a fade after the second one.\<close>

definition paramsFade :: "nat VideoCompositionParams" where
  "paramsFade =
     exParams [exScene ''scene_0'' ''a'' 5, exScene ''scene_1'' ''b'' 8, exScene ''scene_2'' ''c'' 4]
       []
       [\<lparr>sceneId_b = ''scene_0'', videoUrl = ''b0.mp4''\<rparr>,
        \<lparr>sceneId_b = ''scene_1'', videoUrl = ''b1.mp4''\<rparr>,
        \<lparr>sceneId_b = ''scene_2'', videoUrl = ''b2.mp4''\<rparr>]
       [''cut'', ''fade'']"

text \<open>The same three scenes with no transition at all.\<close>

definition paramsCut :: "nat VideoCompositionParams" where
  "paramsCut = paramsFade\<lparr>transitions := []\<rparr>"

text \<open>Two scenes; only the first has a voiceover.\<close>

definition paramsHalfVoiced :: "nat VideoCompositionParams" where
  "paramsHalfVoiced =
     exParams [exScene ''scene_0'' ''a'' 5, exScene ''scene_1'' ''b'' 8]
       [\<lparr>sceneId_v = ''scene_0'', audioUrl = ''a0.mp3''\<rparr>]
       [\<lparr>sceneId_b = ''scene_0'', videoUrl = ''b0.mp4''\<rparr>,
        \<lparr>sceneId_b = ''scene_1'', videoUrl = ''b1.mp4''\<rparr>]
       []"

text \<open>The same two scenes with a music track.\<close>

definition paramsMusic :: "nat VideoCompositionParams" where
  "paramsMusic = paramsHalfVoiced\<lparr>music := \<lparr>enabled_m = True, track = ''upbeat_1'', volume = 0\<rparr>\<rparr>"

text \<open>One scene with a background and nothing else.\<close>

definition paramsOne :: "nat VideoCompositionParams" where
  "paramsOne =
     exParams [exScene ''scene_0'' ''a'' 5] []
       [\<lparr>sceneId_b = ''scene_0'', videoUrl = ''b0.mp4''\<rparr>] []"


text \<open>The captions of a scene whose text is a single backslash, in the default style.\<close>

definition captionBackslash :: SceneCaptions where
  "captionBackslash =
     \<lparr>text_c = [bs], style = getCaptionStyle ''modern'', position = ''bottom'',
      animation = ''word-by-word''\<rparr>"

definition exSceneTemplate :: "string \<Rightarrow> real option \<Rightarrow> SceneTemplate" where
  "exSceneTemplate i d =
     \<lparr>id_st = i, type_st = ''main'', duration_st = d, textTemplate_st = None,
      backgroundType_st = ''gradient'', animation_st = ''none'', captionStyle_st = ''modern'',
      musicTrack_st = None, effects_st = None\<rparr>"

text \<open>A template of two scenes without explicit durations, and one of a single scene.\<close>

definition templateTwo :: TemplateConfig where
  "templateTwo = \<lparr>id_tc = ''t2'', scenes_tc = [exSceneTemplate ''s0'' None, exSceneTemplate ''s1'' None]\<rparr>"

definition templateOne :: TemplateConfig where
  "templateOne = \<lparr>id_tc = ''t1'', scenes_tc = [exSceneTemplate ''s0'' None]\<rparr>"

section \<open>Evaluating the decimal printer\<close>

lemma natStr_0: "natStr 0 = ''0''"
  by (simp add: natStr.simps digitChar_def)

lemma natStr_1: "natStr 1 = ''1''"
  by (simp add: natStr.simps digitChar_def)

lemma natStr_Suc_0: "natStr (Suc 0) = ''1''"
  by (simp add: natStr.simps digitChar_def)

lemma natStr_Suc_Suc_0: "natStr (Suc (Suc 0)) = ''2''"
  by (simp add: natStr.simps[of "Suc (Suc 0)"] digitChar_def)

lemma natStr_Suc_Suc_Suc_0: "natStr (Suc (Suc (Suc 0))) = ''3''"
  by (simp add: natStr.simps[of "Suc (Suc (Suc 0))"] digitChar_def)

lemmas natStr_numeral = natStr.simps [of "numeral k" for k]

lemmas natStr_eval = natStr_0 natStr_1 natStr_Suc_0 natStr_Suc_Suc_0 natStr_Suc_Suc_Suc_0
  natStr_numeral digitChar_def

section \<open>Effect chains\<close>

lemma foldl_append_stage:
  "foldl (\<lambda>filter effect. filter @ g effect) init xs = init @ concat (map g xs)"
  by (induction xs arbitrary: init) simp_all

text \<open>
  C10. The effects of a scene are chained in the order of the list: for every scene index,
  blur then sharpen gives the chain \<^verbatim>\<open>boxblur=2:1,unsharp=5:5:1.0:5:5:0.0\<close>, sharpen then
  blur gives \<^verbatim>\<open>unsharp=5:5:1.0:5:5:0.0,boxblur=2:1\<close>, and the two stage strings differ.
\<close>

theorem C10_effect_order:
  "buildEffectsFilter [''blur'', ''sharpen''] i
     = ''[v'' @ natStr i @ ''_trimmed]boxblur=2:1,unsharp=5:5:1.0:5:5:0.0[v'' @ natStr i @ ''_effects]''
   \<and> buildEffectsFilter [''sharpen'', ''blur''] i
     = ''[v'' @ natStr i @ ''_trimmed]unsharp=5:5:1.0:5:5:0.0,boxblur=2:1[v'' @ natStr i @ ''_effects]''
   \<and> buildEffectsFilter [''blur'', ''sharpen''] i \<noteq> buildEffectsFilter [''sharpen'', ''blur''] i"
  by (simp add: buildEffectsFilter_def effectStage_def foldl_append_stage
        stripTrailingComma_def butlast_append)

section \<open>Caption escaping\<close>

lemma escapeText_Nil: "escapeText [] = []"
  by (simp add: escapeText_def replaceAll_def)

lemma escapeText_Cons:
  "escapeText (c # cs) = (if isSpecial c then [bs, c] else [c]) @ escapeText cs"
  by (auto simp: escapeText_def replaceAll_def isSpecial_def)

lemma escapeText_concat:
  "escapeText t = concat (map (\<lambda>c. if isSpecial c then [bs, c] else [c]) t)"
  by (induction t) (simp_all add: escapeText_Nil escapeText_Cons)

lemma unescape_escape: "unescapeText (escapeText t) = t"
proof (induction t)
  case Nil
  then show ?case by (simp add: escapeText_Nil)
next
  case (Cons c cs)
  show ?case
  proof (cases "isSpecial c")
    case True
    then show ?thesis using Cons by (simp add: escapeText_Cons)
  next
    case False
    show ?thesis
    proof (cases cs)
      case Nil
      then show ?thesis using False by (simp add: escapeText_Cons escapeText_Nil)
    next
      case (Cons d ds)
      have nb: "\<not> isSpecial bs" by (simp add: isSpecial_def)
      obtain e es where e: "escapeText cs = e # es" "\<not> (c = bs \<and> isSpecial e)"
        using Cons nb by (cases "isSpecial d") (auto simp: escapeText_Cons)
      then show ?thesis using False Cons.IH by (auto simp: escapeText_Cons)
    qed
  qed
qed

lemma escaped_special_guarded:
  "j < length (escapeText t) \<Longrightarrow> isSpecial (escapeText t ! j)
     \<Longrightarrow> 0 < j \<and> escapeText t ! (j - 1) = bs"
proof (induction t arbitrary: j)
  case Nil
  then show ?case by (simp add: escapeText_Nil)
next
  case (Cons c cs)
  have nb: "\<not> isSpecial bs" by (simp add: isSpecial_def)
  show ?case
  proof (cases "isSpecial c")
    case True
    then have e: "escapeText (c # cs) = bs # c # escapeText cs" by (simp add: escapeText_Cons)
    show ?thesis
    proof (cases j)
      case 0
      then show ?thesis using Cons.prems e nb by simp
    next
      case (Suc k)
      show ?thesis
      proof (cases k)
        case 0
        then show ?thesis using Suc e by simp
      next
        case (Suc m)
        with \<open>j = Suc k\<close> Cons.prems e
        have "m < length (escapeText cs)" "isSpecial (escapeText cs ! m)" by simp_all
        from Cons.IH[OF this] show ?thesis using Suc \<open>j = Suc k\<close> e by (cases m) simp_all
      qed
    qed
  next
    case False
    then have e: "escapeText (c # cs) = c # escapeText cs" by (simp add: escapeText_Cons)
    show ?thesis
    proof (cases j)
      case 0
      then show ?thesis using Cons.prems e False by simp
    next
      case (Suc m)
      with Cons.prems e have "m < length (escapeText cs)" "isSpecial (escapeText cs ! m)"
        by simp_all
      from Cons.IH[OF this] show ?thesis using Suc e by (cases m) simp_all
    qed
  qed
qed

text \<open>
  What the escaping does for every text: the caption stage is the label, then
  \<^verbatim>\<open>drawtext=text='\<close>, then the escaped text, then \<^verbatim>\<open>':fontfile=\<close> and a remainder that
  does not depend on the text.
\<close>

lemma caption_stage_embeds_escaped:
  "\<exists>rest. \<forall>t. buildCaptionFilter (caps\<lparr>text_c := t\<rparr>) i
       = ''[v'' @ natStr i @ ''_effects]drawtext=text='' @ [sq] @ escapeText t @ [sq]
         @ '':fontfile='' @ rest"
  by (simp add: buildCaptionFilter_def Let_def)

text \<open>
  A text that does not end with a backslash is read back from its escaped form, and the
  reading stops at the closing quote.
\<close>

lemma readQuoted_quote: "readQuoted (sq # rest) = Some ([], rest)"
  by (cases rest) simp_all

lemma readQuoted_escaped:
  "isSpecial d \<Longrightarrow> readQuoted (bs # d # cs)
     = (case readQuoted cs of None \<Rightarrow> None | Some (v, r) \<Rightarrow> Some (d # v, r))"
  by (simp add: isSpecial_def)

lemma readQuoted_plain:
  "c \<noteq> sq \<Longrightarrow> \<not> (c = bs \<and> isSpecial d) \<Longrightarrow> readQuoted (c # d # cs)
     = (case readQuoted (d # cs) of None \<Rightarrow> None | Some (v, r) \<Rightarrow> Some (c # v, r))"
  by auto

lemma readQuoted_escapeText:
  "t = [] \<or> last t \<noteq> bs \<Longrightarrow> readQuoted (escapeText t @ sq # rest) = Some (t, rest)"
proof (induction t)
  case Nil
  then show ?case by (simp add: escapeText_Nil readQuoted_quote del: readQuoted.simps)
next
  case (Cons c cs)
  have nb: "\<not> isSpecial bs" by (simp add: isSpecial_def)
  show ?case
  proof (cases "isSpecial c")
    case True
    then have "c \<noteq> bs" using nb by auto
    then have "cs = [] \<or> last cs \<noteq> bs" using Cons.prems by (auto split: if_splits)
    from Cons.IH[OF this] show ?thesis using True
      by (simp add: escapeText_Cons readQuoted_escaped del: readQuoted.simps)
  next
    case False
    then have nq: "c \<noteq> sq" by (auto simp: isSpecial_def)
    obtain e es where e: "escapeText cs @ sq # rest = e # es"
      by (cases "escapeText cs @ sq # rest") auto
    have ne: "\<not> (c = bs \<and> isSpecial e)"
    proof
      assume a: "c = bs \<and> isSpecial e"
      then have "cs \<noteq> []" using Cons.prems by auto
      then obtain d ds where d: "cs = d # ds" by (cases cs) auto
      then have "e = bs \<or> (e = d \<and> \<not> isSpecial d)"
        using e by (auto simp: escapeText_Cons split: if_splits)
      then show False using a nb by auto
    qed
    have p: "cs = [] \<or> last cs \<noteq> bs" using Cons.prems by (auto split: if_splits)
    have "readQuoted (c # e # es)
            = (case readQuoted (e # es) of None \<Rightarrow> None | Some (v, r) \<Rightarrow> Some (c # v, r))"
      by (rule readQuoted_plain[OF nq ne])
    then show ?thesis using Cons.IH[OF p] False e
      by (simp add: escapeText_Cons del: readQuoted.simps)
  qed
qed

text \<open>
  C7. The caption whose text is a single backslash: the backslash is not escaped, the
  stage holds \<^verbatim>\<open>text='\':fontfile=\<close>, and the quote meant to close the text is read as an
  escaped quote, so that the value read runs on through the font, size, colour, position,
  border and shadow options up to the quote that opens the \<^verbatim>\<open>enable\<close> expression.
\<close>

theorem C7_backslash_breaks_quote:
  "escapeText [bs] = [bs]
   \<and> buildCaptionFilter captionBackslash 0 =
       ''[v0_effects]drawtext=text='' @ [sq, bs, sq]
       @ '':fontfile=/usr/share/fonts/Montserrat.ttf:fontsize=52:fontcolor=#FFFFFF:''
       @ ''x=(w-text_w)/2:h*0.85:borderw=3:bordercolor=#000000:''
       @ ''shadowx=3:shadowy=3:shadowcolor=rgba(0, 0, 0, 0.8):enable='' @ [sq]
       @ ''between(t,0,3)'' @ [sq] @ '':[v0_caption]''
   \<and> readQuoted ([bs, sq]
         @ '':fontfile=/usr/share/fonts/Montserrat.ttf:fontsize=52:fontcolor=#FFFFFF:''
         @ ''x=(w-text_w)/2:h*0.85:borderw=3:bordercolor=#000000:''
         @ ''shadowx=3:shadowy=3:shadowcolor=rgba(0, 0, 0, 0.8):enable='' @ [sq]
         @ ''between(t,0,3)'' @ [sq] @ '':[v0_caption]'')
       = Some ([sq]
           @ '':fontfile=/usr/share/fonts/Montserrat.ttf:fontsize=52:fontcolor=#FFFFFF:''
           @ ''x=(w-text_w)/2:h*0.85:borderw=3:bordercolor=#000000:''
           @ ''shadowx=3:shadowy=3:shadowcolor=rgba(0, 0, 0, 0.8):enable='',
           ''between(t,0,3)'' @ [sq] @ '':[v0_caption]'')"
  by (simp add: escapeText_Cons escapeText_Nil isSpecial_def buildCaptionFilter_def
        captionBackslash_def getCaptionStyle_def styles_def style_modern_def positionExpr_def
        numOr_def strOr_def natStr_eval Let_def)

section \<open>The timeline\<close>

lemma length_buildScenes: "length (buildScenes params index ts ss) = length ss"
  by (induction ss arbitrary: index ts) (simp_all add: Let_def)

lemma buildScenes_nth:
  "i < length ss \<Longrightarrow>
     startTime (buildScenes params index ts ss ! i)
       = foldl (\<lambda>sum s. sum + duration_vs s) ts (take i ss)
   \<and> endTime (buildScenes params index ts ss ! i)
       = foldl (\<lambda>sum s. sum + duration_vs s) ts (take i ss) + duration_vs (ss ! i)
   \<and> duration (buildScenes params index ts ss ! i) = duration_vs (ss ! i)"
proof (induction ss arbitrary: index ts i)
  case Nil
  then show ?case by simp
next
  case (Cons s ss)
  show ?case
  proof (cases i)
    case 0
    then show ?thesis by (simp add: Let_def)
  next
    case (Suc k)
    with Cons.prems have "k < length ss" by simp
    from Cons.IH[OF this, of "index + 1" "ts + duration_vs s"] show ?thesis
      using Suc by (simp add: Let_def)
  qed
qed

lemma totalDuration_snoc: "totalDuration (ss @ [s]) = totalDuration ss + duration_vs s"
  by (simp add: totalDuration_def)

lemma totalDuration_take_Suc:
  "i < length ss \<Longrightarrow>
     totalDuration (take (Suc i) ss) = totalDuration (take i ss) + duration_vs (ss ! i)"
  by (simp add: take_Suc_conv_app_nth totalDuration_snoc)

text \<open>Where addition is associative with unit \<open>0\<close>, the left-to-right total is the sum.\<close>

lemma totalDuration_sum_list:
  "totalDuration ss = sum_list (map duration_vs ss)"
  for ss :: "('n::monoid_add) VideoScene list"
proof -
  have "foldl (\<lambda>sum s. sum + duration_vs s) a ss = a + sum_list (map duration_vs ss)"
    for a :: 'n
    by (induction ss arbitrary: a) (simp_all add: add.assoc)
  then show ?thesis by (simp add: totalDuration_def)
qed

lemma buildScenes_urls:
  "i < length ss \<Longrightarrow>
     backgroundVideoUrl (buildScenes params index ts ss ! i)
       = (case find (\<lambda>b. sceneId_b b = id_vs (ss ! i)) (backgrounds params) of
            None \<Rightarrow> [] | Some b \<Rightarrow> videoUrl b)
   \<and> voiceoverAudioUrl (buildScenes params index ts ss ! i)
       = (case find (\<lambda>v. sceneId_v v = id_vs (ss ! i)) (voiceovers params) of
            None \<Rightarrow> [] | Some v \<Rightarrow> audioUrl v)
   \<and> transition (buildScenes params index ts ss ! i)
       = (if index + i < length (transitions params) then transitions params ! (index + i) else ''cut'')"
proof (induction ss arbitrary: index ts i)
  case Nil
  then show ?case by simp
next
  case (Cons s ss)
  show ?case
  proof (cases i)
    case 0
    then show ?thesis by (simp add: Let_def)
  next
    case (Suc k)
    with Cons.prems have "k < length ss" by simp
    from Cons.IH[OF this, of "Suc index" "ts + duration_vs s"] show ?thesis
      using Suc by (simp add: Let_def)
  qed
qed

lemma buildScenes_times_transitions:
  "map startTime (buildScenes (params\<lparr>transitions := tr\<rparr>) index ts ss) = map startTime (buildScenes params index ts ss)
   \<and> map endTime (buildScenes (params\<lparr>transitions := tr\<rparr>) index ts ss) = map endTime (buildScenes params index ts ss)
   \<and> map duration (buildScenes (params\<lparr>transitions := tr\<rparr>) index ts ss) = map duration (buildScenes params index ts ss)"
  by (induction ss arbitrary: index ts) (simp_all add: Let_def)

text \<open>
  C1. For every parameter record, over any number type with \<open>0\<close> and \<open>+\<close>: the
  configuration has one scene for each input scene; scene \<open>i\<close> starts at the total of the
  durations of the scenes before it, keeps its duration, and ends at its start plus its
  duration, which is the total of the durations up to and including it; each scene starts
  where the one before it ends; the first scene starts at \<open>0\<close> and the last one ends at the
  total of all durations.
\<close>

theorem C1_timeline_contiguous:
  fixes params :: "('n::{zero,plus}) VideoCompositionParams"
  shows
  "length (scenes (buildCompositionConfig params)) = length (scenes_p params)
   \<and> (\<forall>i < length (scenes_p params).
        startTime (scenes (buildCompositionConfig params) ! i)
          = totalDuration (take i (scenes_p params))
      \<and> duration (scenes (buildCompositionConfig params) ! i) = duration_vs (scenes_p params ! i)
      \<and> endTime (scenes (buildCompositionConfig params) ! i)
          = startTime (scenes (buildCompositionConfig params) ! i)
            + duration (scenes (buildCompositionConfig params) ! i)
      \<and> endTime (scenes (buildCompositionConfig params) ! i)
          = totalDuration (take (Suc i) (scenes_p params)))
   \<and> (\<forall>i. Suc i < length (scenes_p params) \<longrightarrow>
        startTime (scenes (buildCompositionConfig params) ! Suc i)
          = endTime (scenes (buildCompositionConfig params) ! i))
   \<and> (scenes_p params \<noteq> [] \<longrightarrow>
        startTime (hd (scenes (buildCompositionConfig params))) = 0
      \<and> endTime (last (scenes (buildCompositionConfig params)))
          = totalDuration (scenes_p params))"
proof -
  let ?ss = "scenes_p params"
  let ?cs = "scenes (buildCompositionConfig params)"
  have cs: "?cs = buildScenes params 0 0 ?ss" by (simp add: buildCompositionConfig_def)
  have len: "length ?cs = length ?ss" by (simp add: cs length_buildScenes)
  have st: "startTime (?cs ! i) = totalDuration (take i ?ss)" if "i < length ?ss" for i
    using buildScenes_nth[OF that, of params 0 0] by (simp add: cs totalDuration_def)
  have du: "duration (?cs ! i) = duration_vs (?ss ! i)" if "i < length ?ss" for i
    using buildScenes_nth[OF that, of params 0 0] by (simp add: cs)
  have en: "endTime (?cs ! i) = startTime (?cs ! i) + duration (?cs ! i)"
    if "i < length ?ss" for i
    using buildScenes_nth[OF that, of params 0 0] by (simp add: cs)
  have en': "endTime (?cs ! i) = totalDuration (take (Suc i) ?ss)" if "i < length ?ss" for i
    by (simp only: en[OF that] st[OF that] du[OF that] totalDuration_take_Suc[OF that])
  have contig: "startTime (?cs ! Suc i) = endTime (?cs ! i)" if "Suc i < length ?ss" for i
  proof -
    from that have "i < length ?ss" by simp
    then show ?thesis by (simp only: st[OF that] en'[OF \<open>i < length ?ss\<close>])
  qed
  have ends: "startTime (hd ?cs) = 0 \<and> endTime (last ?cs) = totalDuration ?ss"
    if ne: "?ss \<noteq> []"
  proof -
    from ne len have cne: "?cs \<noteq> []" by auto
    have h: "hd ?cs = ?cs ! 0" using cne by (simp add: hd_conv_nth)
    have l: "last ?cs = ?cs ! (length ?ss - 1)" using cne len by (simp add: last_conv_nth)
    have lt: "length ?ss - 1 < length ?ss" and z: "0 < length ?ss" using ne by simp_all
    have "take (Suc (length ?ss - 1)) ?ss = ?ss" using ne by simp
    then have "endTime (last ?cs) = totalDuration ?ss" using en'[OF lt] l by simp
    moreover have "startTime (hd ?cs) = 0" using st[OF z] h by (simp add: totalDuration_def)
    ultimately show ?thesis by simp
  qed
  show ?thesis using len st du en en' contig ends by blast
qed

theorem C1_timeline_contiguous_witness:
  "(2::nat) < length (scenes_p paramsFade)
   \<and> Suc 1 < length (scenes_p paramsFade)
   \<and> scenes_p paramsFade \<noteq> []
   \<and> startTime (scenes (buildCompositionConfig paramsFade) ! 2) = 13
   \<and> startTime (scenes (buildCompositionConfig paramsFade) ! Suc 1)
       = endTime (scenes (buildCompositionConfig paramsFade) ! 1)
   \<and> endTime (last (scenes (buildCompositionConfig paramsFade))) = 17"
proof -
  have h: "(2::nat) < length (scenes_p paramsFade)" "Suc 1 < length (scenes_p paramsFade)"
    "scenes_p paramsFade \<noteq> []"
    by (simp_all add: paramsFade_def exParams_def)
  have t: "totalDuration (take 2 (scenes_p paramsFade)) = 13"
    "totalDuration (scenes_p paramsFade) = 17"
    by (simp_all add: paramsFade_def exParams_def exScene_def totalDuration_def)
  from C1_timeline_contiguous[of paramsFade] h
  have "startTime (scenes (buildCompositionConfig paramsFade) ! 2)
          = totalDuration (take 2 (scenes_p paramsFade))"
    and "startTime (scenes (buildCompositionConfig paramsFade) ! Suc 1)
          = endTime (scenes (buildCompositionConfig paramsFade) ! 1)"
    and "endTime (last (scenes (buildCompositionConfig paramsFade)))
          = totalDuration (scenes_p paramsFade)"
    by blast+
  with h t show ?thesis by simp
qed

section \<open>The scenes of a template\<close>

lemma length_generateScenesFrom: "length (generateScenesFrom i sts parts) = length sts"
  by (induction sts arbitrary: i) (simp_all add: Let_def)

lemma generateScenesFrom_nth:
  "k < length sts \<Longrightarrow>
     text_vs (generateScenesFrom i sts parts ! k) = (if i + k < length parts then parts ! (i + k) else [])
   \<and> duration_vs (generateScenesFrom i sts parts ! k) =
       (case duration_st (sts ! k) of
          None \<Rightarrow> calculateDuration (if i + k < length parts then parts ! (i + k) else [])
        | Some d \<Rightarrow> if d = 0 then calculateDuration (if i + k < length parts then parts ! (i + k) else []) else d)"
proof (induction sts arbitrary: i k)
  case Nil
  then show ?case by simp
next
  case (Cons st sts)
  show ?case
  proof (cases k)
    case 0
    then show ?thesis by (simp add: Let_def split: option.splits)
  next
    case (Suc m)
    with Cons.prems have "m < length sts" by simp
    from Cons.IH[OF this, of "Suc i"] show ?thesis using Suc
      by (auto simp: Let_def split: option.splits)
  qed
qed

lemma explicit_duration_kept:
  "k < length (scenes_tc t) \<Longrightarrow> duration_st (scenes_tc t ! k) = Some d \<Longrightarrow> 0 < d \<Longrightarrow>
   duration_vs (generateScenes t script ! k) = d"
  using generateScenesFrom_nth[of k "scenes_tc t" 0 "splitBlankLine [] script"]
  by (simp add: generateScenes_def)

section \<open>The input list and the input indices\<close>

lemma addBackgroundInputs_Cons:
  "fst (snd (addBackgroundInputs (s # ss) k))
     = s\<lparr>backgroundInputIndex := Some k\<rparr> # fst (snd (addBackgroundInputs ss (Suc k)))"
  by (simp add: case_prod_beta)

lemma addBackgroundInputs_inputs:
  "fst (addBackgroundInputs ss k) = map (\<lambda>s. inputArg (backgroundVideoUrl s)) ss"
  by (induction ss arbitrary: k) (simp_all add: inputArg_def case_prod_beta)

lemma addBackgroundInputs_counter: "snd (snd (addBackgroundInputs ss k)) = k + length ss"
  by (induction ss arbitrary: k) (simp_all add: case_prod_beta)

lemma addVoiceoverInputs_Cons:
  "fst (snd (addVoiceoverInputs (s # ss) k))
     = (if hasVoiceover s
        then s\<lparr>voiceoverInputIndex := Some k\<rparr> # fst (snd (addVoiceoverInputs ss (Suc k)))
        else s # fst (snd (addVoiceoverInputs ss k)))"
  by (simp add: hasVoiceover_def case_prod_beta)

lemma addVoiceoverInputs_inputs:
  "fst (addVoiceoverInputs ss k)
     = map (\<lambda>s. inputArg (voiceoverAudioUrl s)) (filter hasVoiceover ss)"
  by (induction ss arbitrary: k) (simp_all add: inputArg_def hasVoiceover_def case_prod_beta)

lemma addVoiceoverInputs_counter:
  "snd (snd (addVoiceoverInputs ss k)) = k + length (filter hasVoiceover ss)"
  by (induction ss arbitrary: k) (simp_all add: hasVoiceover_def case_prod_beta)

lemma length_addBackgroundInputs: "length (fst (snd (addBackgroundInputs ss k))) = length ss"
  by (induction ss arbitrary: k) (simp_all add: case_prod_beta)

lemma length_addVoiceoverInputs: "length (fst (snd (addVoiceoverInputs ss k))) = length ss"
  by (induction ss arbitrary: k) (simp_all add: case_prod_beta)

lemma indexed_Nil: "indexed k j [] = []"
  by (simp add: indexed_def)

lemma indexed_Cons:
  "indexed k j (s # ss) =
     (if hasVoiceover s
      then s\<lparr>backgroundInputIndex := Some k, voiceoverInputIndex := Some j\<rparr> # indexed (Suc k) (Suc j) ss
      else s\<lparr>backgroundInputIndex := Some k\<rparr> # indexed (Suc k) j ss)"
  by (simp add: indexed_def addBackgroundInputs_Cons addVoiceoverInputs_Cons hasVoiceover_def
        del: addBackgroundInputs.simps addVoiceoverInputs.simps)

lemma length_indexed: "length (indexed k j ss) = length ss"
  by (simp add: indexed_def length_addBackgroundInputs length_addVoiceoverInputs)

lemma indexed_idem: "indexed k j (indexed k j ss) = indexed k j ss"
  by (induction ss arbitrary: k j) (simp_all add: indexed_Nil indexed_Cons hasVoiceover_def)

lemma indexed_bg_urls: "map backgroundVideoUrl (indexed k j ss) = map backgroundVideoUrl ss"
  by (induction ss arbitrary: k j) (simp_all add: indexed_Nil indexed_Cons)

lemma indexed_vo_urls:
  "map voiceoverAudioUrl (filter hasVoiceover (indexed k j ss))
     = map voiceoverAudioUrl (filter hasVoiceover ss)"
  by (induction ss arbitrary: k j) (simp_all add: indexed_Nil indexed_Cons hasVoiceover_def)

lemma indexed_vo_count:
  "length (filter hasVoiceover (indexed k j ss)) = length (filter hasVoiceover ss)"
  using indexed_vo_urls[of k j ss] by (metis length_map)

lemma indexed_nth:
  "i < length ss \<Longrightarrow>
     indexed k j ss ! i =
       (if hasVoiceover (ss ! i)
        then (ss ! i)\<lparr>backgroundInputIndex := Some (k + i),
                      voiceoverInputIndex := Some (j + length (filter hasVoiceover (take i ss)))\<rparr>
        else (ss ! i)\<lparr>backgroundInputIndex := Some (k + i)\<rparr>)"
proof (induction ss arbitrary: k j i)
  case Nil
  then show ?case by simp
next
  case (Cons s ss)
  show ?case
  proof (cases i)
    case 0
    then show ?thesis by (simp add: indexed_Cons)
  next
    case (Suc m)
    with Cons.prems have m: "m < length ss" by simp
    show ?thesis using Cons.IH[OF m] Suc by (simp add: indexed_Cons)
  qed
qed

lemma addBackgroundInputs_vo_urls:
  "map voiceoverAudioUrl (filter hasVoiceover (fst (snd (addBackgroundInputs ss k))))
     = map voiceoverAudioUrl (filter hasVoiceover ss)"
  by (induction ss arbitrary: k) (simp_all add: case_prod_beta hasVoiceover_def)

lemma assignInputs_eq:
  "assignInputs config =
     (map (\<lambda>s. inputArg (backgroundVideoUrl s)) (scenes config)
      @ map (\<lambda>s. inputArg (voiceoverAudioUrl s)) (filter hasVoiceover (scenes config))
      @ musicInputs config,
      if hasMusicTrack config
      then config\<lparr>scenes := indexed 0 (length (scenes config)) (scenes config),
                  musicInputIndex :=
                    Some (length (scenes config) + length (filter hasVoiceover (scenes config)))\<rparr>
      else config\<lparr>scenes := indexed 0 (length (scenes config)) (scenes config)\<rparr>)"
proof -
  let ?ss = "scenes config"
  let ?b = "fst (snd (addBackgroundInputs ?ss 0))"
  have urls: "map (\<lambda>s. inputArg (voiceoverAudioUrl s)) (filter hasVoiceover ?b)
                = map (\<lambda>s. inputArg (voiceoverAudioUrl s)) (filter hasVoiceover ?ss)"
    using arg_cong[OF addBackgroundInputs_vo_urls[of ?ss 0], of "map inputArg"] by (simp add: comp_def)
  have cnt: "length (filter hasVoiceover ?b) = length (filter hasVoiceover ?ss)"
    using arg_cong[OF addBackgroundInputs_vo_urls[of ?ss 0], of length] by simp
  show ?thesis
    using urls cnt
    by (simp add: assignInputs_def case_prod_beta addBackgroundInputs_inputs
          addBackgroundInputs_counter addVoiceoverInputs_inputs addVoiceoverInputs_counter
          indexed_def musicInputs_def hasMusicTrack_def inputArg_def
          split: option.splits)
qed

lemma assignInputs_idem: "assignInputs (snd (assignInputs config)) = assignInputs config"
proof -
  let ?ss = "scenes config"
  let ?ix = "indexed 0 (length ?ss) ?ss"
  have bg: "map (\<lambda>s. inputArg (backgroundVideoUrl s)) ?ix = map (\<lambda>s. inputArg (backgroundVideoUrl s)) ?ss"
    using arg_cong[OF indexed_bg_urls[of 0 "length ?ss" ?ss], of "map inputArg"] by (simp add: comp_def)
  have vo: "map (\<lambda>s. inputArg (voiceoverAudioUrl s)) (filter hasVoiceover ?ix)
             = map (\<lambda>s. inputArg (voiceoverAudioUrl s)) (filter hasVoiceover ?ss)"
    using arg_cong[OF indexed_vo_urls[of 0 "length ?ss" ?ss], of "map inputArg"] by (simp add: comp_def)
  show ?thesis
    by (simp add: assignInputs_eq bg vo length_indexed indexed_vo_count indexed_idem
          musicInputs_def hasMusicTrack_def)
qed

lemma generate_idem:
  "generateFFmpegCommand ns (snd (generateFFmpegCommand ns config)) = generateFFmpegCommand ns config"
proof -
  have s: "snd (generateFFmpegCommand ns config) = snd (assignInputs config)"
    by (simp add: generateFFmpegCommand_def case_prod_beta)
  show ?thesis
    unfolding s by (simp add: generateFFmpegCommand_def assignInputs_idem)
qed

section \<open>The stages of the filter graph\<close>

lemma join_empty_sep: "join [] xs = concat xs"
  by (induction "[] :: string" xs rule: join.induct) simp_all

lemma join_Cons2: "join sep (x # y # ys) = x @ sep @ join sep (y # ys)"
  by simp

lemma sceneFilters_audio:
  "snd (sceneFilters ns config k ss)
     = map (\<lambda>i. ''[audio'' @ natStr i @ '']'')
         (filter (\<lambda>i. voiceoverInputIndex (ss ! (i - k)) \<noteq> None) [k..<k + length ss])"
proof (induction ss arbitrary: k)
  case Nil
  then show ?case by simp
next
  case (Cons s ss)
  have shift: "filter (\<lambda>i. voiceoverInputIndex ((s # ss) ! (i - k)) \<noteq> None) [Suc k..<Suc k + length ss]
             = filter (\<lambda>i. voiceoverInputIndex (ss ! (i - Suc k)) \<noteq> None) [Suc k..<Suc k + length ss]"
  proof (rule filter_cong[OF refl])
    fix i
    assume "i \<in> set [Suc k..<Suc k + length ss]"
    then have "Suc k \<le> i" by (simp del: upt_Suc)
    then have "i - k = Suc (i - Suc k)" by simp
    then show "(voiceoverInputIndex ((s # ss) ! (i - k)) \<noteq> None)
                = (voiceoverInputIndex (ss ! (i - Suc k)) \<noteq> None)"
      by simp
  qed
  have upt: "[k..<Suc (k + length ss)] = k # [Suc k..<Suc (k + length ss)]"
    by (simp add: upt_conv_Cons del: upt_Suc)
  show ?case
    using Cons.IH[of "Suc k"] shift
    by (cases "voiceoverInputIndex s") (simp_all add: upt case_prod_beta Let_def del: upt_Suc)
qed

lemma sceneFilters_audioLabels: "snd (sceneFilters ns config 0 ss) = audioLabels ss"
  by (simp add: sceneFilters_audio audioLabels_def)

lemma length_audioLabels:
  "length (audioLabels ss) = length (filter (\<lambda>s. voiceoverInputIndex s \<noteq> None) ss)"
proof -
  have "filter (\<lambda>s. voiceoverInputIndex s \<noteq> None) (map (nth ss) [0..<length ss])
          = map (nth ss) (filter ((\<lambda>s. voiceoverInputIndex s \<noteq> None) \<circ> nth ss) [0..<length ss])"
    by (rule filter_map)
  then have "length (filter (\<lambda>s. voiceoverInputIndex s \<noteq> None) ss)
          = length (filter ((\<lambda>s. voiceoverInputIndex s \<noteq> None) \<circ> nth ss) [0..<length ss])"
    by (simp add: map_nth)
  then show ?thesis by (simp add: audioLabels_def comp_def)
qed


lemma filterComplex_eq:
  "filterComplex ns config =
     fst (sceneFilters ns config 0 (scenes config))
     @ [videoConcatStage (scenes config)]
     @ audioConcatStages (audioLabels (scenes config))
     @ [audioMixStage ns config] @ globalEffectsStages config"
  by (simp add: filterComplex_def case_prod_beta sceneFilters_audioLabels)

section \<open>Transition tags\<close>

lemma stages_retag:
  "resolution config' = resolution config \<Longrightarrow>
     scaleCropStage ns config' i (s\<lparr>transition := t\<rparr>) = scaleCropStage ns config i s"
  "trimStage ns i (s\<lparr>transition := t\<rparr>) = trimStage ns i s"
  "audioTrimStage ns i k (s\<lparr>transition := t\<rparr>) = audioTrimStage ns i k s"
  by (simp_all add: scaleCropStage_def trimStage_def audioTrimStage_def)

lemma sceneFilters_retag:
  "resolution config' = resolution config \<Longrightarrow>
   sceneFilters ns config' k (map (\<lambda>s. s\<lparr>transition := t\<rparr>) ss) = sceneFilters ns config k ss"
  by (induction ss arbitrary: k)
     (simp_all add: Let_def stages_retag case_prod_beta split: option.splits)

lemma indexed_retag:
  "indexed k j (map (\<lambda>s. s\<lparr>transition := t\<rparr>) ss) = map (\<lambda>s. s\<lparr>transition := t\<rparr>) (indexed k j ss)"
  by (induction ss arbitrary: k j) (simp_all add: indexed_Nil indexed_Cons hasVoiceover_def)

lemma tail_stages_scenes:
  "audioMixStage ns (config\<lparr>scenes := ss\<rparr>) = audioMixStage ns config"
  "globalEffectsStages (config\<lparr>scenes := ss\<rparr>) = globalEffectsStages config"
  by (simp_all add: audioMixStage_def globalEffectsStages_def hasMusicTrack_def)

lemma videoConcatStage_length:
  "length ss' = length ss \<Longrightarrow> videoConcatStage ss' = videoConcatStage ss"
  by (simp add: videoConcatStage_def)

lemma filterComplex_retag:
  "filterComplex ns (config\<lparr>scenes := map (\<lambda>s. s\<lparr>transition := t\<rparr>) ss\<rparr>)
     = filterComplex ns (config\<lparr>scenes := ss\<rparr>)"
proof -
  have "sceneFilters ns (config\<lparr>scenes := map (\<lambda>s. s\<lparr>transition := t\<rparr>) ss\<rparr>) 0 (map (\<lambda>s. s\<lparr>transition := t\<rparr>) ss)
          = sceneFilters ns (config\<lparr>scenes := ss\<rparr>) 0 ss"
    by (rule sceneFilters_retag) simp
  moreover have "videoConcatStage (map (\<lambda>s. s\<lparr>transition := t\<rparr>) ss) = videoConcatStage ss"
    by (rule videoConcatStage_length) simp
  ultimately show ?thesis
    by (simp add: filterComplex_def tail_stages_scenes)
qed

lemma generate_retag:
  "fst (generateFFmpegCommand ns (config\<lparr>scenes := map (\<lambda>s. s\<lparr>transition := t\<rparr>) (scenes config)\<rparr>))
     = fst (generateFFmpegCommand ns config)"
proof -
  let ?r = "\<lambda>s::'b SceneConfig. s\<lparr>transition := t\<rparr>"
  let ?c = "config\<lparr>scenes := map ?r (scenes config)\<rparr>"
  have h: "hasVoiceover \<circ> ?r = hasVoiceover"
    by (rule ext) (simp add: hasVoiceover_def)
  have f: "filter hasVoiceover (map ?r (scenes config)) = map ?r (filter hasVoiceover (scenes config))"
    by (simp only: filter_map h)
  have i: "fst (assignInputs ?c) = fst (assignInputs config)"
    by (simp add: assignInputs_eq f musicInputs_def hasMusicTrack_def comp_def)
  have c: "snd (assignInputs ?c) = (snd (assignInputs config))\<lparr>scenes := map ?r (scenes (snd (assignInputs config)))\<rparr>"
    by (simp add: assignInputs_eq f indexed_retag hasMusicTrack_def)
  have "filterComplex ns (snd (assignInputs ?c)) = filterComplex ns (snd (assignInputs config))"
    unfolding c using filterComplex_retag[where ns = ns and config = "snd (assignInputs config)" and t = t
        and ss = "scenes (snd (assignInputs config))"]
    by simp
  moreover have "outputFormat (snd (assignInputs ?c)) = outputFormat (snd (assignInputs config))"
    by (simp add: c)
  ultimately show ?thesis using i
    by (simp add: generateFFmpegCommand_def case_prod_beta)
qed

lemmas ex_defs = exParams_def exScene_def

lemmas compile_defs = assignInputs_def filterComplex_def videoConcatStage_def
  audioConcatStages_def audioMixStage_def globalEffectsStages_def hasMusicTrack_def indexStr_def
  scaleCropStage_def trimStage_def audioTrimStage_def Let_def

section \<open>The command\<close>

lemma command_shape:
  "fst (generateFFmpegCommand ns config)
     = join '' '' (''ffmpeg'' # fst (assignInputs config)
         @ [''-filter_complex'', [dq] @ join '';'' (filterComplex ns (snd (assignInputs config))) @ [dq],
            ''-map'', ''[vout]'', ''-map'', ''[afinal]'',
            ''-c:v'', ''libx264'', ''-preset'', ''medium'', ''-crf'', ''23'',
            ''-c:a'', ''aac'', ''-b:a'', ''192k'',
            ''-movflags'', ''+faststart'', ''-pix_fmt'', ''yuv420p'',
            ''output.'' @ outputFormat (snd (assignInputs config))])"
  by (simp add: generateFFmpegCommand_def case_prod_beta)

lemma command_config: "snd (generateFFmpegCommand ns config) = snd (assignInputs config)"
  by (simp add: generateFFmpegCommand_def case_prod_beta)

lemma assigned_scenes:
  "scenes (snd (assignInputs config)) = indexed 0 (length (scenes config)) (scenes config)"
  by (simp add: assignInputs_eq)

lemma assigned_music:
  "hasMusicTrack config \<Longrightarrow>
     musicInputIndex (snd (assignInputs config))
       = Some (length (scenes config) + length (filter hasVoiceover (scenes config)))"
  by (simp add: assignInputs_eq)

text \<open>
  C3. Whatever the configuration and the printing of numbers: a second call, on the
  configuration as the first call left it, returns the same command and leaves the same
  configuration; the arguments of the command are \<^verbatim>\<open>ffmpeg\<close>, then the background of every
  scene in scene order, then the voiceover of every scene that has one in scene order,
  then the music track if there is one, then \<^verbatim>\<open>-filter_complex\<close>; the background of scene
  \<open>i\<close> gets input index \<open>i\<close>, the voiceover of scene \<open>i\<close> gets the number of scenes plus the
  number of voiced scenes before it, and the music track gets the number of scenes plus
  the number of voiced scenes.
\<close>

theorem C3_deterministic_input_order:
  "generateFFmpegCommand ns (snd (generateFFmpegCommand ns config)) = generateFFmpegCommand ns config
   \<and> (\<exists>rest. fst (generateFFmpegCommand ns config)
         = join '' '' (''ffmpeg''
             # map (\<lambda>s. ''-i '' @ [dq] @ backgroundVideoUrl s @ [dq]) (scenes config)
             @ map (\<lambda>s. ''-i '' @ [dq] @ voiceoverAudioUrl s @ [dq]) (filter hasVoiceover (scenes config))
             @ musicInputs config
             @ ''-filter_complex'' # rest))
   \<and> (\<forall>i < length (scenes config).
         backgroundInputIndex (scenes (snd (generateFFmpegCommand ns config)) ! i) = Some i)
   \<and> (\<forall>i < length (scenes config). hasVoiceover (scenes config ! i) \<longrightarrow>
         voiceoverInputIndex (scenes (snd (generateFFmpegCommand ns config)) ! i)
           = Some (length (scenes config) + length (filter hasVoiceover (take i (scenes config)))))
   \<and> (hasMusicTrack config \<longrightarrow>
         musicInputIndex (snd (generateFFmpegCommand ns config))
           = Some (length (scenes config) + length (filter hasVoiceover (scenes config))))"
proof -
  have a: "generateFFmpegCommand ns (snd (generateFFmpegCommand ns config)) = generateFFmpegCommand ns config"
    by (rule generate_idem)
  have b: "\<exists>rest. fst (generateFFmpegCommand ns config)
         = join '' '' (''ffmpeg''
             # map (\<lambda>s. ''-i '' @ [dq] @ backgroundVideoUrl s @ [dq]) (scenes config)
             @ map (\<lambda>s. ''-i '' @ [dq] @ voiceoverAudioUrl s @ [dq]) (filter hasVoiceover (scenes config))
             @ musicInputs config
             @ ''-filter_complex'' # rest)"
    by (rule exI[of _ "[[dq] @ join '';'' (filterComplex ns (snd (assignInputs config))) @ [dq],
            ''-map'', ''[vout]'', ''-map'', ''[afinal]'',
            ''-c:v'', ''libx264'', ''-preset'', ''medium'', ''-crf'', ''23'',
            ''-c:a'', ''aac'', ''-b:a'', ''192k'',
            ''-movflags'', ''+faststart'', ''-pix_fmt'', ''yuv420p'',
            ''output.'' @ outputFormat (snd (assignInputs config))]"])
       (simp add: command_shape assignInputs_eq inputArg_def)
  have c: "backgroundInputIndex (scenes (snd (generateFFmpegCommand ns config)) ! i) = Some i"
    if "i < length (scenes config)" for i
    using indexed_nth[OF that, of 0 "length (scenes config)"]
    by (simp add: command_config assigned_scenes)
  have d: "voiceoverInputIndex (scenes (snd (generateFFmpegCommand ns config)) ! i)
           = Some (length (scenes config) + length (filter hasVoiceover (take i (scenes config))))"
    if "i < length (scenes config)" "hasVoiceover (scenes config ! i)" for i
    using indexed_nth[OF that(1), of 0 "length (scenes config)"] that(2)
    by (simp add: command_config assigned_scenes)
  have e: "musicInputIndex (snd (generateFFmpegCommand ns config))
           = Some (length (scenes config) + length (filter hasVoiceover (scenes config)))"
    if "hasMusicTrack config"
    using assigned_music[OF that] by (simp add: command_config)
  show ?thesis using a b c d e by blast
qed


text \<open>The configuration of the example with a voiceover and a music track.\<close>

lemma cfgMusic:
  "buildCompositionConfig paramsMusic =
     \<lparr>resolution = \<lparr>width = 1080, height = 1920\<rparr>, outputFormat = ''mp4'',
      scenes =
        [\<lparr>startTime = 0, endTime = 5, duration = 5, backgroundVideoUrl = ''b0.mp4'',
          backgroundInputIndex = None, voiceoverAudioUrl = ''a0.mp3'',
          voiceoverInputIndex = None, captions = None, effects = [], transition = ''cut''\<rparr>,
         \<lparr>startTime = 5, endTime = 13, duration = 8, backgroundVideoUrl = ''b1.mp4'',
          backgroundInputIndex = None, voiceoverAudioUrl = [],
          voiceoverInputIndex = None, captions = None, effects = [], transition = ''cut''\<rparr>],
      globalEffects = [], musicTrack = Some ''upbeat_1'', musicVolume = 0,
      musicInputIndex = None\<rparr>"
  by (simp add: paramsMusic_def paramsHalfVoiced_def ex_defs buildCompositionConfig_def Let_def)

theorem C3_deterministic_input_order_witness:
  "(0::nat) < length (scenes (buildCompositionConfig paramsMusic))
   \<and> hasVoiceover (scenes (buildCompositionConfig paramsMusic) ! 0)
   \<and> hasMusicTrack (buildCompositionConfig paramsMusic)
   \<and> backgroundInputIndex
         (scenes (snd (generateFFmpegCommand natStr (buildCompositionConfig paramsMusic))) ! 0) = Some 0
   \<and> voiceoverInputIndex
         (scenes (snd (generateFFmpegCommand natStr (buildCompositionConfig paramsMusic))) ! 0) = Some 2
   \<and> musicInputIndex (snd (generateFFmpegCommand natStr (buildCompositionConfig paramsMusic))) = Some 3"
proof -
  let ?c = "buildCompositionConfig paramsMusic"
  have h: "(0::nat) < length (scenes ?c)" "hasVoiceover (scenes ?c ! 0)" "hasMusicTrack ?c"
    by (simp_all add: cfgMusic hasVoiceover_def hasMusicTrack_def)
  have n: "length (scenes ?c) + length (filter hasVoiceover (take 0 (scenes ?c))) = 2"
    "length (scenes ?c) + length (filter hasVoiceover (scenes ?c)) = 3"
    by (simp_all add: cfgMusic hasVoiceover_def)
  from C3_deterministic_input_order[of natStr ?c] h
  have "backgroundInputIndex (scenes (snd (generateFFmpegCommand natStr ?c)) ! 0) = Some 0"
    and "voiceoverInputIndex (scenes (snd (generateFFmpegCommand natStr ?c)) ! 0)
           = Some (length (scenes ?c) + length (filter hasVoiceover (take 0 (scenes ?c))))"
    and "musicInputIndex (snd (generateFFmpegCommand natStr ?c))
           = Some (length (scenes ?c) + length (filter hasVoiceover (scenes ?c)))"
    by blast+
  with h n show ?thesis by simp
qed

section \<open>Stream labels\<close>

lemma cfgOne: "buildCompositionConfig paramsOne =
  \<lparr>resolution = \<lparr>width = 1080, height = 1920\<rparr>, outputFormat = ''mp4'',
   scenes = [\<lparr>startTime = 0, endTime = 5, duration = 5, backgroundVideoUrl = ''b0.mp4'',
              backgroundInputIndex = None, voiceoverAudioUrl = [], voiceoverInputIndex = None,
              captions = None, effects = [], transition = ''cut''\<rparr>],
   globalEffects = [], musicTrack = None, musicVolume = 0, musicInputIndex = None\<rparr>"
  by (simp add: paramsOne_def ex_defs buildCompositionConfig_def Let_def)

lemma graphOne:
  "filterComplex natStr (snd (assignInputs (buildCompositionConfig paramsOne))) =
     [''[0:v]scale=1080:1920:force_original_aspect_ratio=increase,crop=1080:1920[bg0]'',
      ''[bg0]trim=duration=5,setpts=PTS-STARTPTS[bg0_trimmed]'',
      ''[v0_final]concat=n=1:v=1:a=0[vout]'',
      ''[aout]acopy[afinal]'']"
  by (simp add: cfgOne compile_defs natStr_eval)

lemma inputsOne:
  "fst (assignInputs (buildCompositionConfig paramsOne)) = [''-i '' @ [dq] @ ''b0.mp4'' @ [dq]]"
  by (simp add: cfgOne compile_defs)

text \<open>
  C2. The configuration of one scene with a background and nothing else: the only input
  is the background, the graph has four stages, the concatenation stage consumes
  \<^verbatim>\<open>v0_final\<close> and the copy stage consumes \<^verbatim>\<open>aout\<close>, the streams that the input and the
  stages define are \<^verbatim>\<open>0:v\<close>, \<^verbatim>\<open>0:a\<close>, \<^verbatim>\<open>bg0\<close>, \<^verbatim>\<open>bg0_trimmed\<close>, \<^verbatim>\<open>vout\<close> and \<^verbatim>\<open>afinal\<close>,
  and so the graph is not linked.
\<close>

theorem C2_graph_not_linked:
  "fst (assignInputs (buildCompositionConfig paramsOne)) = [''-i '' @ [dq] @ ''b0.mp4'' @ [dq]]
   \<and> filterComplex natStr (snd (assignInputs (buildCompositionConfig paramsOne))) =
       [''[0:v]scale=1080:1920:force_original_aspect_ratio=increase,crop=1080:1920[bg0]'',
        ''[bg0]trim=duration=5,setpts=PTS-STARTPTS[bg0_trimmed]'',
        ''[v0_final]concat=n=1:v=1:a=0[vout]'',
        ''[aout]acopy[afinal]'']
   \<and> stageInputs ''[v0_final]concat=n=1:v=1:a=0[vout]'' = [''v0_final'']
   \<and> stageInputs ''[aout]acopy[afinal]'' = [''aout'']
   \<and> inputStreams 1
       @ concat (map stageOutput
           [''[0:v]scale=1080:1920:force_original_aspect_ratio=increase,crop=1080:1920[bg0]'',
            ''[bg0]trim=duration=5,setpts=PTS-STARTPTS[bg0_trimmed]'',
            ''[v0_final]concat=n=1:v=1:a=0[vout]'',
            ''[aout]acopy[afinal]''])
       = [''0:v'', ''0:a'', ''bg0'', ''bg0_trimmed'', ''vout'', ''afinal'']
   \<and> \<not> wellLinked (fst (assignInputs (buildCompositionConfig paramsOne)))
         (filterComplex natStr (snd (assignInputs (buildCompositionConfig paramsOne))))"
  by (simp add: graphOne inputsOne wellLinked_def inputStreams_def stageInputs_def stageOutput_def
        natStr_eval)

section \<open>Scene durations\<close>

text \<open>
  The number of pieces of a split is the number of words, plus one for white space at
  the start (or for the empty text), plus one for white space at the end. So the computed
  duration is the one of the word count for a text that neither starts nor ends with white
  space, and for the empty text both are three seconds.
\<close>

lemma countWords_dropWhile: "countWords False (dropWhile isSpace cs) = countWords False cs"
  by (induction cs) simp_all

lemma last_dropWhile:
  "dropWhile P xs \<noteq> [] \<Longrightarrow> last (dropWhile P xs) = last xs"
  by (induction xs) (auto split: if_splits)

lemma dropWhile_Nil_last:
  "dropWhile isSpace cs = [] \<Longrightarrow> cs \<noteq> [] \<Longrightarrow> isSpace (last cs)"
  by (induction cs) (auto split: if_splits)

lemma length_splitWs:
  "length (splitWs cur t) =
     (if cur \<noteq> [] then 1 else 0) + countWords (cur \<noteq> []) t
     + (if cur = [] \<and> (t = [] \<or> isSpace (hd t)) then 1 else 0)
     + (if t \<noteq> [] \<and> isSpace (last t) then 1 else 0)"
proof (induction cur t rule: splitWs.induct)
  case (1 cur)
  then show ?case by simp
next
  case (2 cur c cs)
  show ?case
  proof (cases "isSpace c")
    case True
    let ?d = "dropWhile isSpace cs"
    have ih: "length (splitWs [] ?d) =
        countWords False ?d + (if ?d = [] \<or> isSpace (hd ?d) then 1 else 0)
        + (if ?d \<noteq> [] \<and> isSpace (last ?d) then 1 else 0)"
      using "2.IH"(1)[OF True] by simp
    show ?thesis
    proof (cases "?d = []")
      case dn: True
      have "cs \<noteq> [] \<Longrightarrow> isSpace (last cs)" using dropWhile_Nil_last[OF dn] .
      then have l: "isSpace (last (c # cs))" using True by simp
      have w: "countWords False cs = 0" using countWords_dropWhile[of cs] dn by simp
      have p: "length (splitWs [] ?d) = 1" by (simp only: dn splitWs.simps list.size One_nat_def)
      have "length (splitWs cur (c # cs)) = 2" using True p by simp
      then show ?thesis using True w l by simp
    next
      case dn: False
      have h: "\<not> isSpace (hd ?d)" using dn hd_dropWhile[of isSpace cs] by simp
      have "cs \<noteq> []" using dn by auto
      then have l: "last (c # cs) = last ?d" using last_dropWhile[OF dn] by simp
      show ?thesis using True ih dn h l countWords_dropWhile[of cs] by simp
    qed
  next
    case False
    have ih: "length (splitWs (cur @ [c]) cs) =
        1 + countWords True cs + (if cs \<noteq> [] \<and> isSpace (last cs) then 1 else 0)"
      using "2.IH"(2)[OF False] by simp
    show ?thesis using False ih by simp
  qed
qed

lemma calculateDuration_trimmed:
  "text \<noteq> [] \<Longrightarrow> \<not> isSpace (hd text) \<Longrightarrow> \<not> isSpace (last text) \<Longrightarrow>
     calculateDuration text = specDuration text"
  by (simp add: calculateDuration_def specDuration_def specWordCount_def length_splitWs Let_def
        max.commute)

lemma calculateDuration_empty: "calculateDuration [] = 3 \<and> specDuration [] = 3"
  by (simp add: calculateDuration_def specDuration_def specWordCount_def Let_def)

text \<open>
  C4. A text of seven words that ends with a space splits into eight pieces, the last one
  empty, so the computed duration is 8 / 2.5 + 0.5 = 3.7 seconds, where seven words give
  7 / 2.5 + 0.5 = 3.3 seconds; the scene built from a template without explicit duration
  gets the 3.7 seconds.
\<close>

theorem C4_duration_counts_empty_pieces:
  "splitWs [] ''one two three four five six seven ''
     = [''one'', ''two'', ''three'', ''four'', ''five'', ''six'', ''seven'', []]
   \<and> calculateDuration ''one two three four five six seven '' = 37 / 10
   \<and> specWordCount ''one two three four five six seven '' = 7
   \<and> specDuration ''one two three four five six seven '' = 33 / 10
   \<and> map duration_vs (generateScenes templateOne ''one two three four five six seven '') = [37 / 10]"
  by (simp add: calculateDuration_def specWordCount_def specDuration_def isSpace_def
        generateScenes_def templateOne_def exSceneTemplate_def Let_def)


section \<open>Transitions\<close>

text \<open>The stage that \<^verbatim>\<open>buildTransitionFilter\<close> renders for a fade: its offset is the
  duration it is given.\<close>

lemma buildTransitionFilter_fade:
  "buildTransitionFilter ns ''fade'' scene1 scene2 d =
     ''[v'' @ natStr scene1 @ ''][v'' @ natStr scene2 @ '']xfade=transition=fade:duration=''
     @ ns d @ '':offset='' @ ns d @ ''[v'' @ natStr scene2 @ ''_trans]''"
  by (simp add: buildTransitionFilter_def transitionName_def)

lemma cfgFade:
  "buildCompositionConfig paramsFade =
     \<lparr>resolution = \<lparr>width = 1080, height = 1920\<rparr>, outputFormat = ''mp4'',
      scenes =
        [\<lparr>startTime = 0, endTime = 5, duration = 5, backgroundVideoUrl = ''b0.mp4'',
          backgroundInputIndex = None, voiceoverAudioUrl = [],
          voiceoverInputIndex = None, captions = None, effects = [], transition = ''cut''\<rparr>,
         \<lparr>startTime = 5, endTime = 13, duration = 8, backgroundVideoUrl = ''b1.mp4'',
          backgroundInputIndex = None, voiceoverAudioUrl = [],
          voiceoverInputIndex = None, captions = None, effects = [], transition = ''fade''\<rparr>,
         \<lparr>startTime = 13, endTime = 17, duration = 4, backgroundVideoUrl = ''b2.mp4'',
          backgroundInputIndex = None, voiceoverAudioUrl = [],
          voiceoverInputIndex = None, captions = None, effects = [], transition = ''cut''\<rparr>],
      globalEffects = [], musicTrack = None, musicVolume = 0, musicInputIndex = None\<rparr>"
  by (simp add: paramsFade_def ex_defs buildCompositionConfig_def Let_def)

text \<open>
  C5. The scenes of 5, 8 and 4 seconds with a fade after the second one: the builder
  records the fade on the second scene, and the graph has the scale and trim stages of the
  three scenes, the concatenation and the audio copy, and no stage for the fade; the
  command is that of the same scenes without any transition.
\<close>

theorem C5_fade_not_compiled:
  "map transition (scenes (buildCompositionConfig paramsFade)) = [''cut'', ''fade'', ''cut'']
   \<and> filterComplex natStr (snd (assignInputs (buildCompositionConfig paramsFade))) =
       [''[0:v]scale=1080:1920:force_original_aspect_ratio=increase,crop=1080:1920[bg0]'',
        ''[bg0]trim=duration=5,setpts=PTS-STARTPTS[bg0_trimmed]'',
        ''[1:v]scale=1080:1920:force_original_aspect_ratio=increase,crop=1080:1920[bg1]'',
        ''[bg1]trim=duration=8,setpts=PTS-STARTPTS[bg1_trimmed]'',
        ''[2:v]scale=1080:1920:force_original_aspect_ratio=increase,crop=1080:1920[bg2]'',
        ''[bg2]trim=duration=4,setpts=PTS-STARTPTS[bg2_trimmed]'',
        ''[v0_final][v1_final][v2_final]concat=n=3:v=1:a=0[vout]'',
        ''[aout]acopy[afinal]'']
   \<and> fst (generateFFmpegCommand natStr (buildCompositionConfig paramsFade))
       = fst (generateFFmpegCommand natStr (buildCompositionConfig paramsCut))"
proof -
  have t: "map transition (scenes (buildCompositionConfig paramsFade)) = [''cut'', ''fade'', ''cut'']"
    by (simp add: cfgFade)
  have g: "filterComplex natStr (snd (assignInputs (buildCompositionConfig paramsFade))) =
       [''[0:v]scale=1080:1920:force_original_aspect_ratio=increase,crop=1080:1920[bg0]'',
        ''[bg0]trim=duration=5,setpts=PTS-STARTPTS[bg0_trimmed]'',
        ''[1:v]scale=1080:1920:force_original_aspect_ratio=increase,crop=1080:1920[bg1]'',
        ''[bg1]trim=duration=8,setpts=PTS-STARTPTS[bg1_trimmed]'',
        ''[2:v]scale=1080:1920:force_original_aspect_ratio=increase,crop=1080:1920[bg2]'',
        ''[bg2]trim=duration=4,setpts=PTS-STARTPTS[bg2_trimmed]'',
        ''[v0_final][v1_final][v2_final]concat=n=3:v=1:a=0[vout]'',
        ''[aout]acopy[afinal]'']"
    by (simp add: cfgFade compile_defs natStr_eval)
  have c: "buildCompositionConfig paramsCut
      = (buildCompositionConfig paramsFade)
          \<lparr>scenes := map (\<lambda>s. s\<lparr>transition := ''cut''\<rparr>) (scenes (buildCompositionConfig paramsFade))\<rparr>"
    by (simp add: cfgFade)
       (simp add: paramsCut_def paramsFade_def ex_defs buildCompositionConfig_def Let_def)
  have "fst (generateFFmpegCommand natStr (buildCompositionConfig paramsFade))
       = fst (generateFFmpegCommand natStr (buildCompositionConfig paramsCut))"
    unfolding c by (rule generate_retag[symmetric])
  with t g show ?thesis by simp
qed

text \<open>
  What holds of transitions for every input. The builder records for scene \<open>i\<close> the
  \<open>i\<close>-th transition tag, or \<^verbatim>\<open>cut\<close> past the end of the list; the start and end times
  do not depend on the tags; the command of a configuration is the command of the same
  configuration with every tag replaced by \<^verbatim>\<open>cut\<close>; and the scenes of 5, 8 and 4 seconds
  with a fade after the second one start at 0, 5 and 13, end at 5, 13 and 17, and last 17
  seconds in all.
\<close>

lemma transition_tags_ignored:
  fixes params :: "('n::{zero,plus}) VideoCompositionParams" and config :: "'m CompositionConfig"
  shows
  "(\<forall>i < length (scenes_p params).
      transition (scenes (buildCompositionConfig params) ! i)
        = (if i < length (transitions params) then transitions params ! i else ''cut''))
   \<and> map startTime (scenes (buildCompositionConfig (params\<lparr>transitions := tr\<rparr>)))
       = map startTime (scenes (buildCompositionConfig params))
   \<and> map endTime (scenes (buildCompositionConfig (params\<lparr>transitions := tr\<rparr>)))
       = map endTime (scenes (buildCompositionConfig params))
   \<and> fst (generateFFmpegCommand ns
            (config\<lparr>scenes := map (\<lambda>s. s\<lparr>transition := ''cut''\<rparr>) (scenes config)\<rparr>))
       = fst (generateFFmpegCommand ns config)
   \<and> map startTime (scenes (buildCompositionConfig paramsFade)) = [0, 5, 13]
   \<and> map endTime (scenes (buildCompositionConfig paramsFade)) = [5, 13, 17]
   \<and> totalDuration (scenes_p paramsFade) = 17"
proof -
  have a: "transition (scenes (buildCompositionConfig params) ! i)
        = (if i < length (transitions params) then transitions params ! i else ''cut'')"
    if "i < length (scenes_p params)" for i
    using buildScenes_urls[OF that, where params = params and index = 0 and ts = 0]
    by (simp add: buildCompositionConfig_def)
  have b: "map startTime (scenes (buildCompositionConfig (params\<lparr>transitions := tr\<rparr>)))
       = map startTime (scenes (buildCompositionConfig params))"
    "map endTime (scenes (buildCompositionConfig (params\<lparr>transitions := tr\<rparr>)))
       = map endTime (scenes (buildCompositionConfig params))"
    using buildScenes_times_transitions[where params = params and tr = tr and index = 0 and ts = 0
        and ss = "scenes_p params"]
    by (simp_all add: buildCompositionConfig_def)
  have c: "fst (generateFFmpegCommand ns
            (config\<lparr>scenes := map (\<lambda>s. s\<lparr>transition := ''cut''\<rparr>) (scenes config)\<rparr>))
       = fst (generateFFmpegCommand ns config)"
    by (rule generate_retag)
  have d: "map startTime (scenes (buildCompositionConfig paramsFade)) = [0, 5, 13]"
    "map endTime (scenes (buildCompositionConfig paramsFade)) = [5, 13, 17]"
    by (simp_all add: cfgFade)
  have e: "totalDuration (scenes_p paramsFade) = 17"
    by (simp add: paramsFade_def ex_defs totalDuration_def)
  show ?thesis using a b c d e by blast
qed


section \<open>Concatenation\<close>

lemma cfgHalfVoiced:
  "buildCompositionConfig paramsHalfVoiced =
     \<lparr>resolution = \<lparr>width = 1080, height = 1920\<rparr>, outputFormat = ''mp4'',
      scenes =
        [\<lparr>startTime = 0, endTime = 5, duration = 5, backgroundVideoUrl = ''b0.mp4'',
          backgroundInputIndex = None, voiceoverAudioUrl = ''a0.mp3'',
          voiceoverInputIndex = None, captions = None, effects = [], transition = ''cut''\<rparr>,
         \<lparr>startTime = 5, endTime = 13, duration = 8, backgroundVideoUrl = ''b1.mp4'',
          backgroundInputIndex = None, voiceoverAudioUrl = [],
          voiceoverInputIndex = None, captions = None, effects = [], transition = ''cut''\<rparr>],
      globalEffects = [], musicTrack = None, musicVolume = 0, musicInputIndex = None\<rparr>"
  by (simp add: paramsHalfVoiced_def ex_defs buildCompositionConfig_def Let_def)

text \<open>
  Two scenes of 5 and 8 seconds, only the first with a voiceover: the audio concatenation
  has the single stream \<^verbatim>\<open>audio0\<close>, and no stage gives the second scene any audio.
\<close>

theorem C6_concatenation_stages_counterexample:
  "map voiceoverAudioUrl (scenes (buildCompositionConfig paramsHalfVoiced)) = [''a0.mp3'', []]
   \<and> map duration (scenes (buildCompositionConfig paramsHalfVoiced)) = [5, 8]
   \<and> filterComplex natStr (snd (assignInputs (buildCompositionConfig paramsHalfVoiced))) =
       [''[0:v]scale=1080:1920:force_original_aspect_ratio=increase,crop=1080:1920[bg0]'',
        ''[bg0]trim=duration=5,setpts=PTS-STARTPTS[bg0_trimmed]'',
        ''[2:a]atrim=duration=5,asetpts=PTS-STARTPTS[audio0]'',
        ''[1:v]scale=1080:1920:force_original_aspect_ratio=increase,crop=1080:1920[bg1]'',
        ''[bg1]trim=duration=8,setpts=PTS-STARTPTS[bg1_trimmed]'',
        ''[v0_final][v1_final]concat=n=2:v=1:a=0[vout]'',
        ''[audio0]concat=n=1:v=0:a=1[aout]'',
        ''[aout]acopy[afinal]'']"
  by (simp add: cfgHalfVoiced compile_defs natStr_eval)

text \<open>
  C6, as the code has it. The graph of a configuration, as the input assignment leaves
  it, is the stages of the scenes, then the video concatenation of the streams
  \<^verbatim>\<open>v0_final\<close> up to the last scene with \<^verbatim>\<open>n\<close> the number of scenes, then, when some scene
  has a voiceover input index, the audio concatenation of the \<^verbatim>\<open>audio\<close> streams of exactly
  those scenes with \<^verbatim>\<open>n\<close> their number, then the mix or copy stage and the global effects;
  a scene has a voiceover input index after the assignment exactly when its voiceover URL
  is not empty or it came with an index.
\<close>

theorem C6_concatenation_stages:
  "filterComplex ns (snd (assignInputs config)) =
     fst (sceneFilters ns (snd (assignInputs config)) 0 (scenes (snd (assignInputs config))))
     @ [concat (map (\<lambda>i. ''[v'' @ natStr i @ ''_final]'') [0..<length (scenes config)])
        @ ''concat=n='' @ natStr (length (scenes config)) @ '':v=1:a=0[vout]'']
     @ (if audioLabels (scenes (snd (assignInputs config))) = [] then []
        else [concat (audioLabels (scenes (snd (assignInputs config))))
              @ ''concat=n='' @ natStr (length (audioLabels (scenes (snd (assignInputs config)))))
              @ '':v=0:a=1[aout]''])
     @ [audioMixStage ns (snd (assignInputs config))]
     @ globalEffectsStages (snd (assignInputs config))
   \<and> length (audioLabels (scenes (snd (assignInputs config))))
       = length (filter (\<lambda>s. voiceoverInputIndex s \<noteq> None) (scenes (snd (assignInputs config))))
   \<and> (\<forall>i < length (scenes config).
         (voiceoverInputIndex (scenes (snd (assignInputs config)) ! i) \<noteq> None)
           = (hasVoiceover (scenes config ! i) \<or> voiceoverInputIndex (scenes config ! i) \<noteq> None))"
proof -
  let ?c = "snd (assignInputs config)"
  have len: "length (scenes ?c) = length (scenes config)"
    by (simp add: assigned_scenes length_indexed)
  have a: "filterComplex ns ?c =
     fst (sceneFilters ns ?c 0 (scenes ?c))
     @ [concat (map (\<lambda>i. ''[v'' @ natStr i @ ''_final]'') [0..<length (scenes config)])
        @ ''concat=n='' @ natStr (length (scenes config)) @ '':v=1:a=0[vout]'']
     @ (if audioLabels (scenes ?c) = [] then []
        else [concat (audioLabels (scenes ?c))
              @ ''concat=n='' @ natStr (length (audioLabels (scenes ?c))) @ '':v=0:a=1[aout]''])
     @ [audioMixStage ns ?c] @ globalEffectsStages ?c"
    by (simp add: filterComplex_eq videoConcatStage_def audioConcatStages_def join_empty_sep len)
  have b: "length (audioLabels (scenes ?c))
       = length (filter (\<lambda>s. voiceoverInputIndex s \<noteq> None) (scenes ?c))"
    by (rule length_audioLabels)
  have c: "(voiceoverInputIndex (scenes ?c ! i) \<noteq> None)
           = (hasVoiceover (scenes config ! i) \<or> voiceoverInputIndex (scenes config ! i) \<noteq> None)"
    if "i < length (scenes config)" for i
    using indexed_nth[OF that, of 0 "length (scenes config)"] by (simp add: assigned_scenes)
  show ?thesis using a b c by blast
qed

theorem C6_concatenation_stages_witness:
  "(1::nat) < length (scenes (buildCompositionConfig paramsHalfVoiced))
   \<and> \<not> hasVoiceover (scenes (buildCompositionConfig paramsHalfVoiced) ! 1)
   \<and> voiceoverInputIndex (scenes (buildCompositionConfig paramsHalfVoiced) ! 1) = None
   \<and> voiceoverInputIndex
         (scenes (snd (assignInputs (buildCompositionConfig paramsHalfVoiced))) ! 1) = None"
proof -
  let ?c = "buildCompositionConfig paramsHalfVoiced"
  have h: "(1::nat) < length (scenes ?c)" "\<not> hasVoiceover (scenes ?c ! 1)"
    "voiceoverInputIndex (scenes ?c ! 1) = None"
    by (simp_all add: cfgHalfVoiced hasVoiceover_def)
  from C6_concatenation_stages[of _ ?c] h
  have "\<not> voiceoverInputIndex (scenes (snd (assignInputs ?c)) ! 1) \<noteq> None"
    by blast
  with h show ?thesis by simp
qed

section \<open>Missing media\<close>




section \<open>Array lengths\<close>

text \<open>
  A template of two scenes and a script of one part give two scenes, the second with the
  empty text; two scenes and one voiceover give two scene configurations, the second with
  the empty voiceover URL.
\<close>

theorem C9_no_shape_check_counterexample:
  "length (scenes_tc templateTwo) = 2
   \<and> splitBlankLine [] ''Hello world'' = [''Hello world'']
   \<and> map text_vs (generateScenes templateTwo ''Hello world'') = [''Hello world'', []]
   \<and> length (scenes_p paramsHalfVoiced) = 2
   \<and> length (voiceovers paramsHalfVoiced) = 1
   \<and> map voiceoverAudioUrl (scenes (buildCompositionConfig paramsHalfVoiced)) = [''a0.mp3'', []]"
  by (simp add: generateScenes_def templateTwo_def exSceneTemplate_def Let_def cfgHalfVoiced)
     (simp add: paramsHalfVoiced_def ex_defs)

text \<open>
  C9, as the code has it. The scene builder returns one scene for each scene template,
  with the script part of the same position as its text, or the empty text where the
  script has no such part; the composition builder returns one scene configuration for
  each scene, with the URLs of the first voiceover and the first background of its id, or
  the empty URL where there is none.
\<close>

theorem C9_no_shape_check:
  fixes params :: "('n::{zero,plus}) VideoCompositionParams"
  shows
  "length (generateScenes template script) = length (scenes_tc template)
   \<and> (\<forall>k < length (scenes_tc template).
         text_vs (generateScenes template script ! k)
           = (if k < length (splitBlankLine [] script) then splitBlankLine [] script ! k else []))
   \<and> length (scenes (buildCompositionConfig params)) = length (scenes_p params)
   \<and> (\<forall>i < length (scenes_p params).
         voiceoverAudioUrl (scenes (buildCompositionConfig params) ! i)
           = (case find (\<lambda>v. sceneId_v v = id_vs (scenes_p params ! i)) (voiceovers params) of
                None \<Rightarrow> [] | Some v \<Rightarrow> audioUrl v)
       \<and> backgroundVideoUrl (scenes (buildCompositionConfig params) ! i)
           = (case find (\<lambda>b. sceneId_b b = id_vs (scenes_p params ! i)) (backgrounds params) of
                None \<Rightarrow> [] | Some b \<Rightarrow> videoUrl b))"
proof -
  have a: "length (generateScenes template script) = length (scenes_tc template)"
    by (simp add: generateScenes_def length_generateScenesFrom)
  have b: "text_vs (generateScenes template script ! k)
           = (if k < length (splitBlankLine [] script) then splitBlankLine [] script ! k else [])"
    if "k < length (scenes_tc template)" for k
    using generateScenesFrom_nth[OF that, of 0 "splitBlankLine [] script"]
    by (simp add: generateScenes_def)
  have c: "length (scenes (buildCompositionConfig params)) = length (scenes_p params)"
    by (simp add: buildCompositionConfig_def length_buildScenes)
  have d: "voiceoverAudioUrl (scenes (buildCompositionConfig params) ! i)
           = (case find (\<lambda>v. sceneId_v v = id_vs (scenes_p params ! i)) (voiceovers params) of
                None \<Rightarrow> [] | Some v \<Rightarrow> audioUrl v)
       \<and> backgroundVideoUrl (scenes (buildCompositionConfig params) ! i)
           = (case find (\<lambda>b. sceneId_b b = id_vs (scenes_p params ! i)) (backgrounds params) of
                None \<Rightarrow> [] | Some b \<Rightarrow> videoUrl b)"
    if "i < length (scenes_p params)" for i
    using buildScenes_urls[OF that, where params = params and index = 0 and ts = 0]
    by (simp add: buildCompositionConfig_def)
  show ?thesis using a b c d by blast
qed

theorem C9_no_shape_check_witness:
  "(1::nat) < length (scenes_tc templateTwo)
   \<and> \<not> (1::nat) < length (splitBlankLine [] ''Hello world'')
   \<and> text_vs (generateScenes templateTwo ''Hello world'' ! 1) = []
   \<and> (1::nat) < length (scenes_p paramsHalfVoiced)
   \<and> voiceoverAudioUrl (scenes (buildCompositionConfig paramsHalfVoiced) ! 1) = []"
proof -
  have h: "(1::nat) < length (scenes_tc templateTwo)" "(1::nat) < length (scenes_p paramsHalfVoiced)"
    by (simp_all add: templateTwo_def paramsHalfVoiced_def ex_defs)
  have n: "\<not> (1::nat) < length (splitBlankLine [] ''Hello world'')" by simp
  have f: "find (\<lambda>v. sceneId_v v = id_vs (scenes_p paramsHalfVoiced ! 1)) (voiceovers paramsHalfVoiced)
             = None"
    by (simp add: paramsHalfVoiced_def ex_defs)
  from C9_no_shape_check[where template = templateTwo and script = "''Hello world''" and params = paramsHalfVoiced] h
  have "text_vs (generateScenes templateTwo ''Hello world'' ! 1)
          = (if 1 < length (splitBlankLine [] ''Hello world'')
             then splitBlankLine [] ''Hello world'' ! 1 else [])"
    and "voiceoverAudioUrl (scenes (buildCompositionConfig paramsHalfVoiced) ! 1)
          = (case find (\<lambda>v. sceneId_v v = id_vs (scenes_p paramsHalfVoiced ! 1))
                    (voiceovers paramsHalfVoiced) of
               None \<Rightarrow> [] | Some v \<Rightarrow> audioUrl v)"
    by blast+
  with h n f show ?thesis by simp
qed

end
